theory Spec2Isabelle
  imports Main "HOL-Library.Sublist"
begin

section \<open>Strings\<close>

text \<open>
  A Python string is modelled as a \<open>string\<close> whose characters are the code points 0 to
  255. \<open>isspace\<close> holds of the twelve of them that \<^verbatim>\<open>str.isspace\<close> accepts, the no-break
  space and the next-line control among them, and \<open>lower_char\<close> is \<^verbatim>\<open>str.lower\<close> on
  one such character: the capitals A to Z and the accented capitals of Latin-1 have a
  small letter, everything else stays. The Spanish messages of \<^verbatim>\<open>main.py\<close> are written
  without their accents and without the inverted question mark; everything else of a
  message is kept.
\<close>

definition nl :: string where
  "nl = [CHR 0x0A]"

definition quote :: string where
  "quote = [CHR 0x27]"

definition backslash :: string where
  "backslash = [CHR 0x5C]"

definition isspace :: "char \<Rightarrow> bool" where
  "isspace c \<longleftrightarrow> c \<in> set [CHR 0x09, CHR 0x0A, CHR 0x0B, CHR 0x0C, CHR 0x0D,
                          CHR 0x1C, CHR 0x1D, CHR 0x1E, CHR 0x1F, CHR 0x20, CHR 0x85, CHR 0xA0]"

definition str_strip :: "string \<Rightarrow> string" where
  "str_strip s = rev (dropWhile isspace (rev (dropWhile isspace s)))"

definition capitals :: string where
  "capitals = ''ABCDEFGHIJKLMNOPQRSTUVWXYZ'' @
          [CHR 0xC0, CHR 0xC1, CHR 0xC2, CHR 0xC3, CHR 0xC4, CHR 0xC5, CHR 0xC6, CHR 0xC7,
           CHR 0xC8, CHR 0xC9, CHR 0xCA, CHR 0xCB, CHR 0xCC, CHR 0xCD, CHR 0xCE, CHR 0xCF,
           CHR 0xD0, CHR 0xD1, CHR 0xD2, CHR 0xD3, CHR 0xD4, CHR 0xD5, CHR 0xD6, CHR 0xD8,
           CHR 0xD9, CHR 0xDA, CHR 0xDB, CHR 0xDC, CHR 0xDD, CHR 0xDE]"

definition small_letters :: string where
  "small_letters = ''abcdefghijklmnopqrstuvwxyz'' @
          [CHR 0xE0, CHR 0xE1, CHR 0xE2, CHR 0xE3, CHR 0xE4, CHR 0xE5, CHR 0xE6, CHR 0xE7,
           CHR 0xE8, CHR 0xE9, CHR 0xEA, CHR 0xEB, CHR 0xEC, CHR 0xED, CHR 0xEE, CHR 0xEF,
           CHR 0xF0, CHR 0xF1, CHR 0xF2, CHR 0xF3, CHR 0xF4, CHR 0xF5, CHR 0xF6, CHR 0xF8,
           CHR 0xF9, CHR 0xFA, CHR 0xFB, CHR 0xFC, CHR 0xFD, CHR 0xFE]"

definition lower_char :: "char \<Rightarrow> char" where
  "lower_char c = (case map_of (zip capitals small_letters) c of None \<Rightarrow> c | Some d \<Rightarrow> d)"

definition str_lower :: "string \<Rightarrow> string" where
  "str_lower s = map lower_char s"

fun str_split :: "char \<Rightarrow> string \<Rightarrow> string list" where
  "str_split sep [] = [[]]"
| "str_split sep (c # cs) =
     (if c = sep then [] # str_split sep cs
      else (case str_split sep cs of
              [] \<Rightarrow> [[c]]
            | x # xs \<Rightarrow> (c # x) # xs))"

fun str_join :: "string \<Rightarrow> string list \<Rightarrow> string" where
  "str_join sep [] = []"
| "str_join sep [x] = x"
| "str_join sep (x # y # ys) = x @ sep @ str_join sep (y # ys)"

section \<open>The host: file system, programs, child processes\<close>

text \<open>
  The file system is a list of entries, each an absolute path (its components from the
  root; the root is the empty list) with the kind of the node. The order of the list
  stands for the order in which the host enumerates a directory. A path string is
  resolved against the working directory; empty components and \<^verbatim>\<open>.\<close> are dropped,
  \<^verbatim>\<open>..\<close> and symbolic links are not interpreted.
\<close>

datatype kind = File | Dir

record machine =
  entries :: "(string list \<times> kind) list"
  programs :: "string set"
  environ :: "(string \<times> string) list"

datatype command = Argv "string list" | Shell string

text \<open>
  What a child process did: it was launched and exited with a status and a standard-error
  text, or the launch itself raised.
\<close>

datatype error =
    CalledProcessError command int string
  | EOFError
  | FileNotFoundError
  | FileExistsError
  | NotADirectoryError
  | PermissionError
  | OSError string

datatype outcome = Exited int string | LaunchFailed error

text \<open>
  Everything the program cannot decide is a field of the host: what a child process does
  to the machine, the working directory, the operating system family, the interpreter's
  path, the name \<^verbatim>\<open>mkdtemp\<close> picks, whether the kernel refuses to create a directory,
  whether a directory scan raises, the text of an operating system error, and what a
  settings file holds.
\<close>

record host =
  spawn :: "command \<Rightarrow> machine \<Rightarrow> outcome \<times> machine"
  cwd :: string
  os_name :: string
  sys_executable :: string
  tmp_name :: "machine \<Rightarrow> string"
  mkdir_refused :: "machine \<Rightarrow> string list \<Rightarrow> error option"
  scan_refused :: "machine \<Rightarrow> string \<Rightarrow> error option"
  strerror :: "error \<Rightarrow> string"
  dotenv_values :: "machine \<Rightarrow> string \<Rightarrow> (string \<times> string) list"

fun is_OSError :: "error \<Rightarrow> bool" where
  "is_OSError (CalledProcessError c n s) = False"
| "is_OSError EOFError = False"
| "is_OSError e = True"

subsection \<open>Paths\<close>

definition os_path_join :: "string \<Rightarrow> string \<Rightarrow> string" where
  "os_path_join a b =
     (if b \<noteq> [] \<and> hd b = CHR ''/'' then b
      else if a = [] \<or> last a = CHR ''/'' then a @ b
      else a @ ''/'' @ b)"

definition os_path_basename :: "string \<Rightarrow> string" where
  "os_path_basename p = last (str_split CHR ''/'' p)"

definition parts :: "string \<Rightarrow> string list" where
  "parts p = filter (\<lambda>c. c \<noteq> [] \<and> c \<noteq> ''.'') (str_split CHR ''/'' p)"

definition path_name :: "string \<Rightarrow> string" where
  "path_name p = (case parts p of [] \<Rightarrow> [] | c # cs \<Rightarrow> last (c # cs))"

definition locate :: "host \<Rightarrow> string \<Rightarrow> string list" where
  "locate h p = parts (os_path_join (cwd h) p)"

definition kind_at :: "machine \<Rightarrow> string list \<Rightarrow> kind option" where
  "kind_at m k = map_of (entries m) k"

definition os_path_exists :: "host \<Rightarrow> machine \<Rightarrow> string \<Rightarrow> bool" where
  "os_path_exists h m p \<longleftrightarrow> p \<noteq> [] \<and> kind_at m (locate h p) \<noteq> None"

fun common_prefix :: "'a list \<Rightarrow> 'a list \<Rightarrow> 'a list" where
  "common_prefix (x # xs) (y # ys) = (if x = y then x # common_prefix xs ys else [])"
| "common_prefix xs ys = []"

definition os_path_relpath :: "host \<Rightarrow> string \<Rightarrow> string \<Rightarrow> string" where
  "os_path_relpath h p start =
     (let start_list = locate h start;
          path_list = locate h p;
          i = length (common_prefix start_list path_list);
          rel_list = replicate (length start_list - i) ''..'' @ drop i path_list
      in if rel_list = [] then ''.'' else str_join ''/'' rel_list)"

subsection \<open>Creating and removing directories\<close>

definition add_dir :: "string list \<Rightarrow> machine \<Rightarrow> machine" where
  "add_dir k m = m\<lparr>entries := entries m @ [(k, Dir)]\<rparr>"

text \<open>
  \<^verbatim>\<open>os.makedirs\<close> of the standard library: the leaf and every missing intermediate
  directory are created, from the root down. \<open>make_chain h pre cs m\<close> creates the
  components \<open>cs\<close> below the directory \<open>pre\<close>. The result is the error raised, if
  any, with the machine as it is left: the directories made before an error stay.
\<close>

fun make_chain :: "host \<Rightarrow> string list \<Rightarrow> string list \<Rightarrow> machine \<Rightarrow> error option \<times> machine" where
  "make_chain h pre [] m = (None, m)"
| "make_chain h pre (c # cs) m =
     (case kind_at m (pre @ [c]) of
        Some Dir \<Rightarrow> make_chain h (pre @ [c]) cs m
      | Some File \<Rightarrow> (Some NotADirectoryError, m)
      | None \<Rightarrow>
          (case mkdir_refused h m (pre @ [c]) of
             Some e \<Rightarrow> (Some e, m)
           | None \<Rightarrow> make_chain h (pre @ [c]) cs (add_dir (pre @ [c]) m)))"

definition os_makedirs :: "host \<Rightarrow> string \<Rightarrow> bool \<Rightarrow> machine \<Rightarrow> error option \<times> machine" where
  "os_makedirs h name exist_ok m =
     (if name = [] then (Some FileNotFoundError, m)
      else (case kind_at m (locate h name) of
              Some Dir \<Rightarrow> if exist_ok then (None, m) else (Some FileExistsError, m)
            | Some File \<Rightarrow> (Some FileExistsError, m)
            | None \<Rightarrow> make_chain h [] (locate h name) m))"

text \<open>
  \<^verbatim>\<open>os.mkdir\<close>, the single-level creation \<^verbatim>\<open>main.py\<close> never calls: the parent must
  exist already.
\<close>

definition os_mkdir :: "host \<Rightarrow> string \<Rightarrow> machine \<Rightarrow> error + machine" where
  "os_mkdir h name m =
     (if name = [] then Inl FileNotFoundError
      else if kind_at m (locate h name) \<noteq> None then Inl FileExistsError
      else (case kind_at m (butlast (locate h name)) of
              None \<Rightarrow> Inl FileNotFoundError
            | Some File \<Rightarrow> Inl NotADirectoryError
            | Some Dir \<Rightarrow>
                (case mkdir_refused h m (locate h name) of
                   Some e \<Rightarrow> Inl e
                 | None \<Rightarrow> Inr (add_dir (locate h name) m))))"

definition shutil_rmtree :: "string list \<Rightarrow> machine \<Rightarrow> machine" where
  "shutil_rmtree k m = m\<lparr>entries := filter (\<lambda>e. \<not> prefix k (fst e)) (entries m)\<rparr>"

subsection \<open>Enumerating a tree\<close>

text \<open>
  The names of the entries of one kind in a directory, in the order of the host.
\<close>

definition children :: "machine \<Rightarrow> kind \<Rightarrow> string list \<Rightarrow> string list" where
  "children m t k =
     map (\<lambda>e. last (fst e))
       (filter (\<lambda>e. snd e = t \<and> fst e \<noteq> [] \<and> butlast (fst e) = k) (entries m))"

text \<open>
  The directories at and below a directory, top-down and depth-first: a directory, then
  each of its subdirectories with everything below it, in the order of the host. This is
  the order in which \<^verbatim>\<open>os.walk\<close> and \<^verbatim>\<open>Path.rglob\<close> visit a tree.
\<close>

function walk_dirs :: "machine \<Rightarrow> string list \<Rightarrow> string list list" where
  "walk_dirs m k = k # concat (map (\<lambda>name. walk_dirs m (k @ [name])) (children m Dir k))"
  by pat_completeness auto
termination
proof (relation "measure (\<lambda>(m, k). length (filter (\<lambda>e. strict_prefix k (fst e)) (entries m)))")
  show "wf (measure (\<lambda>(m, k). length (filter (\<lambda>e. strict_prefix k (fst e)) (entries m))))"
    by simp
next
  fix m :: machine and k :: "string list" and name :: string
  assume "name \<in> set (children m Dir k)"
  then obtain e where e: "e \<in> set (entries m)" "fst e \<noteq> []" "butlast (fst e) = k"
      "last (fst e) = name"
    by (auto simp: children_def)
  from e(2) have "butlast (fst e) @ [last (fst e)] = fst e"
    by (rule append_butlast_last_id)
  with e(3,4) have key: "fst e = k @ [name]" by simp
  let ?below = "\<lambda>e. strict_prefix (k @ [name]) (fst e)"
  let ?under = "\<lambda>e. strict_prefix k (fst e)"
  have narrower: "?below x \<Longrightarrow> ?under x" for x
    by (auto simp: strict_prefix_def prefix_def)
  have "filter ?below (entries m) = filter ?below (filter ?under (entries m))"
    by (auto intro: filter_cong dest: narrower)
  moreover have "e \<in> set (filter ?under (entries m))"
    using e(1) key by (simp add: strict_prefix_def)
  moreover have "\<not> ?below e"
    using key by simp
  ultimately have "length (filter ?below (entries m)) < length (filter ?under (entries m))"
    using length_filter_less [of e "filter ?under (entries m)" ?below] by simp
  then show "((m, k @ [name]), (m, k))
      \<in> measure (\<lambda>(m, k). length (filter (\<lambda>e. strict_prefix k (fst e)) (entries m)))"
    by simp
qed

declare walk_dirs.simps [simp del]

text \<open>
  The regular files below a directory, relative to it: the list comprehension over
  \<^verbatim>\<open>Path(temp_dir).rglob('*')\<close> with its \<^verbatim>\<open>is_file()\<close> filter. For each directory
  visited, its files in the order of the host.
\<close>

definition rglob_files :: "host \<Rightarrow> machine \<Rightarrow> string \<Rightarrow> string list" where
  "rglob_files h m folder =
     concat (map (\<lambda>k. map (\<lambda>name. str_join ''/'' (drop (length (locate h folder)) k @ [name]))
                        (children m File k))
               (walk_dirs m (locate h folder)))"

text \<open>
  \<^verbatim>\<open>os.walk\<close>: one triple (root, directory names, file names) for the given directory
  and for every directory below it, top-down; nothing when it is not a directory.
\<close>

definition os_walk :: "host \<Rightarrow> machine \<Rightarrow> string \<Rightarrow> (string \<times> string list \<times> string list) list" where
  "os_walk h m folder =
     (if kind_at m (locate h folder) = Some Dir \<and> folder \<noteq> [] then
        map (\<lambda>k. (foldl os_path_join folder (drop (length (locate h folder)) k),
                  children m Dir k, children m File k))
          (walk_dirs m (locate h folder))
      else [])"

section \<open>The program's own state and effects\<close>

text \<open>
  The trace records, in order, what the program itself does to the outside: the lines it
  prints, the prompts it shows, the child processes it starts and the settings files it
  loads. Standard input is the list of lines still to be read.
\<close>

datatype event = Print string | Prompt string | Run command | LoadDotenv string

record world =
  mach :: machine
  stdin :: "string list"
  trace :: "event list"

type_synonym 'a io = "world \<Rightarrow> (error + 'a) \<times> world"

definition io_return :: "'a \<Rightarrow> 'a io" where
  "io_return x w = (Inr x, w)"

definition io_raise :: "error \<Rightarrow> 'a io" where
  "io_raise e w = (Inl e, w)"

definition io_bind :: "'a io \<Rightarrow> ('a \<Rightarrow> 'b io) \<Rightarrow> 'b io" where
  "io_bind f g w = (case f w of (Inl e, w') \<Rightarrow> (Inl e, w') | (Inr x, w') \<Rightarrow> g x w')"

definition io_try :: "'a io \<Rightarrow> (error \<Rightarrow> 'a io) \<Rightarrow> 'a io" where
  "io_try f handler w = (case f w of (Inl e, w') \<Rightarrow> handler e w' | (Inr x, w') \<Rightarrow> (Inr x, w'))"

fun io_for :: "'a list \<Rightarrow> ('a \<Rightarrow> unit io) \<Rightarrow> unit io" where
  "io_for [] body = io_return ()"
| "io_for (x # xs) body = io_bind (body x) (\<lambda>u. io_for xs body)"

definition emit :: "event \<Rightarrow> world \<Rightarrow> world" where
  "emit e w = w\<lparr>trace := trace w @ [e]\<rparr>"

definition print_py :: "string \<Rightarrow> unit io" where
  "print_py s w = (Inr (), emit (Print s) w)"

definition input_py :: "string \<Rightarrow> string io" where
  "input_py prompt w =
     (case stdin w of
        [] \<Rightarrow> (Inl EOFError, emit (Prompt prompt) w)
      | l # ls \<Rightarrow> (Inr l, (emit (Prompt prompt) w)\<lparr>stdin := ls\<rparr>))"

text \<open>
  \<^verbatim>\<open>subprocess.run\<close>: the child changes the machine as the host says; with
  \<^verbatim>\<open>check=True\<close> a non-zero exit status raises \<^verbatim>\<open>CalledProcessError\<close>.
\<close>

definition subprocess_run :: "host \<Rightarrow> command \<Rightarrow> bool \<Rightarrow> int io" where
  "subprocess_run h cmd check w =
     (case spawn h cmd (mach w) of
        (LaunchFailed e, m') \<Rightarrow> (Inl e, (emit (Run cmd) w)\<lparr>mach := m'\<rparr>)
      | (Exited status err, m') \<Rightarrow>
          (if check \<and> status \<noteq> 0
           then (Inl (CalledProcessError cmd status err), (emit (Run cmd) w)\<lparr>mach := m'\<rparr>)
           else (Inr status, (emit (Run cmd) w)\<lparr>mach := m'\<rparr>)))"

definition exists_io :: "host \<Rightarrow> string \<Rightarrow> bool io" where
  "exists_io h p w = (Inr (os_path_exists h (mach w) p), w)"

definition shutil_which :: "string \<Rightarrow> bool io" where
  "shutil_which name w = (Inr (name \<in> programs (mach w)), w)"

definition makedirs_io :: "host \<Rightarrow> string \<Rightarrow> bool \<Rightarrow> unit io" where
  "makedirs_io h name exist_ok w =
     (case os_makedirs h name exist_ok (mach w) of
        (Some e, m') \<Rightarrow> (Inl e, w\<lparr>mach := m'\<rparr>)
      | (None, m') \<Rightarrow> (Inr (), w\<lparr>mach := m'\<rparr>))"

text \<open>
  \<^verbatim>\<open>with tempfile.TemporaryDirectory() as temp_dir\<close>: the directory is created, the
  body runs, and the directory with everything below it is removed whether the body
  returned or raised. Creating the directory and removing it are taken to succeed.
\<close>

definition with_temporary_directory :: "host \<Rightarrow> (string \<Rightarrow> 'a io) \<Rightarrow> 'a io" where
  "with_temporary_directory h body w =
     (let temp_dir = tmp_name h (mach w) in
      case body temp_dir (w\<lparr>mach := add_dir (locate h temp_dir) (mach w)\<rparr>) of
        (r, w') \<Rightarrow> (r, w'\<lparr>mach := shutil_rmtree (locate h temp_dir) (mach w')\<rparr>))"

text \<open>
  \<^verbatim>\<open>load_dotenv(path)\<close>: the pairs of the file are added to the environment; a
  variable that is already set keeps its value.
\<close>

definition load_dotenv :: "host \<Rightarrow> string \<Rightarrow> unit io" where
  "load_dotenv h p w =
     (Inr (), (emit (LoadDotenv p) w)
        \<lparr>mach := (mach w)\<lparr>environ := environ (mach w) @
            filter (\<lambda>kv. fst kv \<notin> fst ` set (environ (mach w)))
              (dotenv_values h (mach w) p)\<rparr>\<rparr>)"

definition rglob_io :: "host \<Rightarrow> string \<Rightarrow> string list io" where
  "rglob_io h folder w =
     (case scan_refused h (mach w) folder of
        Some e \<Rightarrow> (Inl e, w)
      | None \<Rightarrow> (Inr (rglob_files h (mach w) folder), w))"

definition walk_io :: "host \<Rightarrow> string \<Rightarrow> (string \<times> string list \<times> string list) list io" where
  "walk_io h folder w = (Inr (os_walk h (mach w) folder), w)"

subsection \<open>Dictionaries\<close>

text \<open>
  A Python \<^verbatim>\<open>dict\<close> keeps its keys in insertion order; assigning to a key that is
  present replaces the value in place.
\<close>

type_synonym dict = "(string \<times> string) list"

fun dict_set :: "dict \<Rightarrow> string \<Rightarrow> string \<Rightarrow> dict" where
  "dict_set [] k v = [(k, v)]"
| "dict_set (kv # d) k v = (if fst kv = k then (k, v) # d else kv # dict_set d k v)"

definition dict_has :: "dict \<Rightarrow> string \<Rightarrow> bool" where
  "dict_has d k \<longleftrightarrow> k \<in> fst ` set d"

definition dict_get :: "dict \<Rightarrow> string \<Rightarrow> string option" where
  "dict_get d k = map_of d k"

section \<open>The functions of main.py\<close>

text \<open>
  \<^verbatim>\<open>verificar_url_repositorio\<close>, lines 10 to 18. Only \<^verbatim>\<open>CalledProcessError\<close> is caught; a child that cannot be
  launched raises through.
\<close>

definition verificar_url_repositorio :: "host \<Rightarrow> string \<Rightarrow> bool io" where
  "verificar_url_repositorio h url =
     io_try
       (io_bind (subprocess_run h (Argv [''git'', ''ls-remote'', url]) True) (\<lambda>r.
        io_return True))
       (\<lambda>e. case e of
              CalledProcessError c n s \<Rightarrow>
                io_bind (print_py ''URL no valido o no se pudo conectar al repositorio.'') (\<lambda>u.
                io_return False)
            | _ \<Rightarrow> io_raise e)"

text \<open>
  \<^verbatim>\<open>obtener_nombre_y_archivos_repositorio\<close>, lines 21 to 29. Nothing is caught here: a failed clone raises, after the temporary
  directory is removed.
\<close>

definition obtener_nombre_y_archivos_repositorio :: "host \<Rightarrow> string \<Rightarrow> (string \<times> string list) io" where
  "obtener_nombre_y_archivos_repositorio h url =
     with_temporary_directory h (\<lambda>temp_dir.
       io_bind (subprocess_run h (Argv [''git'', ''clone'', ''--depth'', ''1'', url, temp_dir]) True) (\<lambda>r.
       io_bind (rglob_io h temp_dir) (\<lambda>archivos.
       io_return (path_name temp_dir, archivos))))"

text \<open>
  \<^verbatim>\<open>seleccionar_carpeta_clonacion\<close>, lines 32 to 53. The result is the chosen directory, or \<open>None\<close> when the directory
  could not be created.
\<close>

definition seleccionar_carpeta_clonacion :: "host \<Rightarrow> string \<Rightarrow> string option io" where
  "seleccionar_carpeta_clonacion h default_dir =
     io_bind (print_py (nl @ ''Carpeta de clonacion predeterminada: '' @ default_dir)) (\<lambda>u.
     io_bind (input_py ''Desea cambiar la carpeta de clonacion? (s/n): '') (\<lambda>answer.
     (let custom_dir = str_lower (str_strip answer) in
      if custom_dir = ''s'' then
        io_bind (input_py ''Ingrese la ruta de la carpeta deseada: '') (\<lambda>line.
        (let user_dir = str_strip line in
         io_try
           (io_bind (makedirs_io h user_dir True) (\<lambda>u.
            io_bind (print_py (''Carpeta de clonacion configurada en: '' @ user_dir)) (\<lambda>u.
            io_return (Some user_dir))))
           (\<lambda>e. if e = PermissionError then
                  io_bind (print_py
                    ''Error: No tienes permisos para crear la carpeta en esa ubicacion.'') (\<lambda>u.
                  io_return None)
                else if is_OSError e then
                  io_bind (print_py
                    (''Error: No se pudo crear la carpeta de clonacion. Detalles: '' @ strerror h e)) (\<lambda>u.
                  io_return None)
                else io_raise e)))
      else io_return (Some default_dir))))"

text \<open>
  \<^verbatim>\<open>show_file_preview\<close>, lines 79 to 86.
\<close>

definition show_file_preview :: "host \<Rightarrow> string \<Rightarrow> unit io" where
  "show_file_preview h folder_path =
     io_bind (print_py (nl @ ''Vista previa de archivos en el proyecto:'')) (\<lambda>u.
     io_bind (walk_io h folder_path) (\<lambda>triples.
     io_bind (io_for triples (\<lambda>(root, dirs, files).
        if root = folder_path \<or> os_path_basename root \<in> set [''src'', ''lib''] then
          io_for files (\<lambda>file.
            print_py (''-  '' @ os_path_relpath h (os_path_join root file) folder_path))
        else io_return ())) (\<lambda>u.
     print_py (nl @ ''Final de la vista previa de archivos.''))))"

text \<open>
  \<^verbatim>\<open>clone_repository\<close>, lines 56 to 76. \<^verbatim>\<open>os.makedirs\<close> stands outside the \<^verbatim>\<open>try\<close>: its error raises
  through.
\<close>

definition clone_repository :: "host \<Rightarrow> string \<Rightarrow> string \<Rightarrow> bool io" where
  "clone_repository h repo_url destination_folder =
     io_bind (exists_io h destination_folder) (\<lambda>present.
     io_bind (if \<not> present then makedirs_io h destination_folder False else io_return ()) (\<lambda>u.
     io_bind
       (io_try
          (io_bind (subprocess_run h (Argv [''git'', ''clone'', repo_url, destination_folder]) True) (\<lambda>r.
           io_bind (print_py (''Repositorio clonado con exito en: '' @ destination_folder)) (\<lambda>u.
           io_return True)))
          (\<lambda>e. case e of
                 CalledProcessError c n err \<Rightarrow>
                   io_bind (print_py (''Error al clonar el repositorio: '' @ err)) (\<lambda>u.
                   io_return False)
               | _ \<Rightarrow> io_raise e))
       (\<lambda>cloned.
          if cloned then io_bind (show_file_preview h destination_folder) (\<lambda>u. io_return True)
          else io_return False)))"

text \<open>
  \<^verbatim>\<open>detect_dependencies\<close>, lines 89 to 123.
\<close>

definition detect_dependencies :: "host \<Rightarrow> string \<Rightarrow> dict io" where
  "detect_dependencies h project_folder =
     io_bind (print_py (nl @ ''--- Detectando dependencias ---'')) (\<lambda>u.
     io_bind (exists_io h (os_path_join project_folder ''package.json'')) (\<lambda>has_package_json.
     io_bind
       (if has_package_json then
          io_bind (print_py ''Archivo de configuracion Node.js detectado (package.json).'') (\<lambda>u.
          io_return (dict_set [] ''Node.js'' ''package.json''))
        else io_return []) (\<lambda>d1.
     io_bind (exists_io h (os_path_join project_folder ''requirements.txt'')) (\<lambda>has_requirements_txt.
     io_bind
       (if has_requirements_txt then
          io_bind (print_py ''Archivo de configuracion de Python detectado (requirements.txt).'') (\<lambda>u.
          io_return (dict_set d1 ''Python'' ''requirements.txt''))
        else
          io_bind (exists_io h (os_path_join project_folder ''Pipfile'')) (\<lambda>has_pipfile.
          if has_pipfile then
            io_bind (print_py ''Archivo de configuracion de Python detectado (Pipfile).'') (\<lambda>u.
            io_return (dict_set d1 ''Python'' ''Pipfile''))
          else io_return d1)) (\<lambda>d2.
     io_bind (exists_io h (os_path_join project_folder ''venv'')) (\<lambda>has_venv.
     io_bind
       (if has_venv then
          io_bind (print_py ''Entorno virtual detectado (venv).'') (\<lambda>u.
          io_return (dict_set d2 ''Python virtual environment'' ''venv''))
        else io_return d2) (\<lambda>dependencies.
     io_bind
       (if dependencies \<noteq> [] then
          io_bind (print_py (nl @ ''--- Resumen de dependencias detectadas ---'')) (\<lambda>u.
          io_for dependencies (\<lambda>(dep, config_file).
            print_py (dep @ '' (configurado en: '' @ config_file @ '')'')))
        else print_py ''No se detectaron dependencias especificas en el proyecto.'') (\<lambda>u.
     io_return dependencies))))))))"

text \<open>
  \<^verbatim>\<open>install_dependency\<close>, lines 126 to 142. The answer is lowercased, not stripped.
\<close>

definition install_dependency :: "host \<Rightarrow> string \<Rightarrow> string list \<Rightarrow> string \<Rightarrow> unit io" where
  "install_dependency h dependency_name install_command manual_instructions =
     io_bind (print_py (nl @ ''Se necesita instalar '' @ dependency_name @ ''.'')) (\<lambda>u.
     io_bind (input_py (''Quieres instalar '' @ dependency_name @ '' automaticamente? (s/n): '')) (\<lambda>answer.
     (let choice = str_lower answer in
      if choice = ''s'' then
        io_try
          (io_bind (print_py (''Instalando '' @ dependency_name @ ''...'')) (\<lambda>u.
           io_bind (subprocess_run h (Argv install_command) True) (\<lambda>r.
           print_py (dependency_name @ '' se instalo correctamente.''))))
          (\<lambda>e. case e of
                 CalledProcessError c n s \<Rightarrow>
                   print_py (''Error: No se pudo instalar '' @ dependency_name @ '' automaticamente.'')
               | _ \<Rightarrow> io_raise e)
      else
        io_bind (print_py (''Instrucciones para instalar '' @ dependency_name @ '' manualmente:'')) (\<lambda>u.
        print_py manual_instructions))))"

text \<open>
  \<^verbatim>\<open>project_requirements\<close>, lines 180 to 183, the dictionary of the project-level commands in its insertion order.
\<close>

definition project_requirements :: "(string \<times> string \<times> string) list" where
  "project_requirements =
     [(''Node.js'', ''npm install'',
         ''Ejecuta '' @ quote @ ''npm install'' @ quote @ '' en el directorio del proyecto.''),
      (''Python'', ''pip install -r requirements.txt'',
         ''Ejecuta '' @ quote @ ''pip install -r requirements.txt'' @ quote @ '' en el entorno virtual.'')]"

text \<open>
  Lines 153 to 177 of \<^verbatim>\<open>install_required_dependencies\<close>, Phase A after the test for
  \<^verbatim>\<open>git\<close>: the binaries of Node.js, then those of Python.
\<close>

definition toolchain_checks :: "host \<Rightarrow> dict \<Rightarrow> unit io" where
  "toolchain_checks h dependencies =
       io_bind
         (if dict_has dependencies ''Node.js'' then
            io_bind (shutil_which ''node'') (\<lambda>has_node.
            io_bind (shutil_which ''npm'') (\<lambda>has_npm.
            if \<not> (has_node \<and> has_npm) then
              install_dependency h ''Node.js y npm'' [''npm'', ''install'', ''-g'', ''node'']
                ''Visita https://nodejs.org para descargar e instalar Node.js y npm.''
            else print_py ''Node.js y npm ya estan instalados.''))
          else io_return ()) (\<lambda>u.
          if dict_has dependencies ''Python'' then
            io_bind (shutil_which ''python3'') (\<lambda>has_python3.
            io_bind
              (if \<not> has_python3 then
                 install_dependency h ''Python'' [''apt-get'', ''install'', ''python3'']
                   ''Instala Python desde https://www.python.org/ para obtener la version adecuada.''
               else io_return ()) (\<lambda>u.
            io_bind (shutil_which ''pip'') (\<lambda>has_pip.
            if \<not> has_pip then
              install_dependency h ''pip'' [''python3'', ''-m'', ''ensurepip'', ''--upgrade'']
                (''Instala pip con el comando '' @ quote @ ''python3 -m ensurepip --upgrade'' @ quote
                   @ '' o descarga desde https://pip.pypa.io.'')
            else io_return ())))
          else io_return ())"

text \<open>
  \<^verbatim>\<open>install_required_dependencies\<close>, lines 145 to 194: the test for \<^verbatim>\<open>git\<close>, Phase A
  (\<open>toolchain_checks\<close>), then Phase B, the loop over \<open>project_requirements\<close>. The shell
  command of Phase B runs with \<^verbatim>\<open>check=False\<close>.
\<close>

definition install_required_dependencies :: "host \<Rightarrow> dict \<Rightarrow> unit io" where
  "install_required_dependencies h dependencies =
     io_bind (shutil_which ''git'') (\<lambda>has_git.
     if \<not> has_git then
       print_py ''Error: Git no esta instalado. Por favor, instala Git y vuelve a intentarlo.''
     else
       io_bind (toolchain_checks h dependencies) (\<lambda>u.
       io_for project_requirements (\<lambda>(dep, command, manual_instruction).
         if dict_has dependencies dep then
           io_bind (print_py (nl @ ''Para completar la instalacion de '' @ dep @ '':'')) (\<lambda>u.
           io_bind (input_py (''Quieres ejecutar '' @ quote @ command @ quote
                               @ '' automaticamente? (s/n): '')) (\<lambda>answer.
           (let choice = str_lower answer in
            if choice = ''s'' then
              io_bind (subprocess_run h (Shell command) False) (\<lambda>r.
              print_py (dep @ '' se configuro correctamente.''))
            else print_py (''Instruccion: '' @ manual_instruction))))
         else io_return ())))"

text \<open>
  \<^verbatim>\<open>setup_python_virtualenv\<close>, lines 197 to 212.
\<close>

definition setup_python_virtualenv :: "host \<Rightarrow> unit io" where
  "setup_python_virtualenv h =
     io_bind (exists_io h ''venv'') (\<lambda>present.
     io_bind
       (if \<not> present then
          io_bind (print_py ''Creando entorno virtual en Python...'') (\<lambda>u.
          io_bind (subprocess_run h (Argv [sys_executable h, ''-m'', ''venv'', ''venv'']) True) (\<lambda>r.
          print_py ''Entorno virtual creado.''))
        else print_py ''El entorno virtual ya existe.'') (\<lambda>u.
     (let activate_script =
            (if os_name h = ''nt'' then ''venv'' @ backslash @ ''Scripts'' @ backslash @ ''activate.bat''
             else ''source venv/bin/activate'')
      in print_py (''Para activar el entorno virtual, ejecute: '' @ activate_script))))"

text \<open>
  \<^verbatim>\<open>setup_environment_variables\<close>, lines 215 to 222.
\<close>

definition setup_environment_variables :: "host \<Rightarrow> unit io" where
  "setup_environment_variables h =
     io_bind (exists_io h ''.env'') (\<lambda>present.
     if present then
       io_bind (print_py ''Cargando variables de entorno desde el archivo .env...'') (\<lambda>u.
       io_bind (load_dotenv h ''.env'') (\<lambda>u.
       print_py ''Variables de entorno configuradas.''))
     else
       print_py ''No se encontro un archivo .env. Puedes crear uno para definir variables de entorno.'')"

text \<open>
  \<^verbatim>\<open>install_python_dependencies\<close>, lines 225 to 233.
\<close>

definition install_python_dependencies :: "host \<Rightarrow> unit io" where
  "install_python_dependencies h =
     io_bind (exists_io h ''requirements.txt'') (\<lambda>present.
     if present then
       io_bind (print_py ''Se detecto requirements.txt. Instalando dependencias de Python...'') (\<lambda>u.
       io_bind (subprocess_run h
                  (Argv [''venv/bin/pip'', ''install'', ''-r'', ''requirements.txt'']) True) (\<lambda>r.
       print_py ''Dependencias de Python instaladas correctamente.''))
     else
       print_py ''No se detecto requirements.txt. Saltando instalacion de dependencias de Python.'')"

text \<open>
  \<^verbatim>\<open>install_node_dependencies\<close>, lines 236 to 244.
\<close>

definition install_node_dependencies :: "host \<Rightarrow> unit io" where
  "install_node_dependencies h =
     io_bind (exists_io h ''package.json'') (\<lambda>present.
     if present then
       io_bind (print_py ''Se detecto package.json. Instalando dependencias de Node.js...'') (\<lambda>u.
       io_bind (subprocess_run h (Argv [''npm'', ''install'']) True) (\<lambda>r.
       print_py ''Dependencias de Node.js instaladas correctamente.''))
     else
       print_py ''No se detecto package.json. Saltando instalacion de dependencias de Node.js.'')"

text \<open>
  The truth value of an optional string in an \<^verbatim>\<open>if\<close>: \<open>None\<close> and the empty string are
  false.
\<close>

definition truthy :: "string option \<Rightarrow> bool" where
  "truthy v \<longleftrightarrow> (case v of None \<Rightarrow> False | Some s \<Rightarrow> s \<noteq> [])"

text \<open>
  \<^verbatim>\<open>main\<close>, lines 247 to 303. Every early \<^verbatim>\<open>return\<close> is the \<open>else\<close> branch that ends the run.
\<close>

definition main :: "host \<Rightarrow> unit io" where
  "main h =
     io_bind (print_py ''Bienvenido al asistente de configuracion de su entorno de desarrollo.'') (\<lambda>u.
     io_bind (input_py ''Ingrese el URL del repositorio de Git: '') (\<lambda>line.
     (let url = str_strip line in
      io_bind (verificar_url_repositorio h url) (\<lambda>valid.
      if valid then
        io_bind (print_py (nl @ ''URL verificado correctamente.'')) (\<lambda>u.
        io_bind (obtener_nombre_y_archivos_repositorio h url) (\<lambda>(nombre, archivos).
        if nombre \<noteq> [] \<and> archivos \<noteq> [] then
          io_bind (print_py (nl @ ''Nombre del repositorio: '' @ nombre)) (\<lambda>u.
          io_bind (print_py ''Archivos del repositorio (vista previa de 10 archivos):'') (\<lambda>u.
          io_bind (io_for (take 10 archivos) (\<lambda>archivo. print_py (''  - '' @ archivo))) (\<lambda>u.
          io_bind (seleccionar_carpeta_clonacion h (cwd h)) (\<lambda>carpeta_clonacion.
          if truthy carpeta_clonacion then
            io_bind (print_py (nl @ ''El repositorio se clonara en: '' @ the carpeta_clonacion)) (\<lambda>u.
            io_bind (input_py (nl @
              ''Configuracion inicial completada. Presione Enter para continuar con la clonacion...'')) (\<lambda>enter.
            io_bind (clone_repository h url (the carpeta_clonacion)) (\<lambda>cloned.
            if cloned then
              io_bind (print_py ''Repositorio clonado exitosamente.'') (\<lambda>u.
              io_bind (detect_dependencies h (the carpeta_clonacion)) (\<lambda>dependencies.
              io_bind (install_required_dependencies h dependencies) (\<lambda>u.
              io_bind (setup_python_virtualenv h) (\<lambda>u.
              io_bind (setup_environment_variables h) (\<lambda>u.
              io_bind (install_python_dependencies h) (\<lambda>u.
              install_node_dependencies h))))))
            else io_return ())))
          else
            print_py ''Error al seleccionar la carpeta de clonacion. Proceso terminado.''))))
        else
          print_py ''No se pudieron obtener los detalles del repositorio. Proceso terminado.''))
      else
        print_py ''Proceso terminado. Verifique el URL e intente de nuevo.''))))"

section \<open>A concrete host\<close>

text \<open>
  A POSIX machine on which every child process exits with status 0 and changes nothing,
  with a home directory and a temporary directory, and \<^verbatim>\<open>git\<close> on the search path.
\<close>

definition host_demo :: host where
  "host_demo =
     \<lparr>spawn = (\<lambda>c m. (Exited 0 [], m)), cwd = ''/home/u'', os_name = ''posix'',
      sys_executable = ''/usr/bin/python3'', tmp_name = (\<lambda>m. ''/tmp/tmpk3x9''),
      mkdir_refused = (\<lambda>m k. None), scan_refused = (\<lambda>m p. None),
      strerror = (\<lambda>e. ''error''), dotenv_values = (\<lambda>m p. [])\<rparr>"

definition machine_demo :: machine where
  "machine_demo =
     \<lparr>entries = [([], Dir), ([''home''], Dir), ([''home'', ''u''], Dir), ([''tmp''], Dir)],
      programs = {''git''}, environ = []\<rparr>"

definition world_demo :: "string list \<Rightarrow> world" where
  "world_demo ls = \<lparr>mach = machine_demo, stdin = ls, trace = []\<rparr>"

text \<open>
  The same machine with a \<^verbatim>\<open>git\<close> that clones an empty repository: a clone leaves
  \<^verbatim>\<open>.git\<close> with its \<^verbatim>\<open>HEAD\<close> in the target directory and nothing else. The
  interpreter's \<^verbatim>\<open>-m venv venv\<close> makes \<^verbatim>\<open>venv\<close> in the working directory.
\<close>

definition spawn_empty_repo :: "command \<Rightarrow> machine \<Rightarrow> outcome \<times> machine" where
  "spawn_empty_repo c m =
     (case c of
        Argv args \<Rightarrow>
          if take 2 args = [''git'', ''clone''] then
            (Exited 0 [],
             m\<lparr>entries := entries m @
                [(parts (last args) @ [''.git''], Dir),
                 (parts (last args) @ [''.git'', ''HEAD''], File)]\<rparr>)
          else if drop 1 args = [''-m'', ''venv'', ''venv''] then
            (Exited 0 [], m\<lparr>entries := entries m @ [([''home'', ''u'', ''venv''], Dir)]\<rparr>)
          else (Exited 0 [], m)
      | Shell s \<Rightarrow> (Exited 0 [], m))"

definition host_empty_repo :: host where
  "host_empty_repo = host_demo\<lparr>spawn := spawn_empty_repo\<rparr>"

section \<open>Vocabulary of the properties\<close>

text \<open>An event that starts \<^verbatim>\<open>git clone\<close>, shallow or full.\<close>

fun is_clone :: "event \<Rightarrow> bool" where
  "is_clone (Run (Argv (a # b # args))) = (a = ''git'' \<and> b = ''clone'')"
| "is_clone e = False"

text \<open>
  The lines \<open>show_file_preview\<close> prints between its header and its footer: the files of
  the root and of every directory named \<^verbatim>\<open>src\<close> or \<^verbatim>\<open>lib\<close>.
\<close>

definition preview_lines :: "host \<Rightarrow> machine \<Rightarrow> string \<Rightarrow> string list" where
  "preview_lines h m folder_path =
     concat (map (\<lambda>(root, dirs, files).
        if root = folder_path \<or> os_path_basename root \<in> set [''src'', ''lib''] then
          map (\<lambda>file. ''-  '' @ os_path_relpath h (os_path_join root file) folder_path) files
        else []) (os_walk h m folder_path))"

text \<open>
  The directories below a directory, by the names of its subdirectories: the part of
  \<open>walk_dirs\<close> after the directory itself.
\<close>

definition walk_below :: "machine \<Rightarrow> string list \<Rightarrow> string list \<Rightarrow> string list list" where
  "walk_below m k names = concat (map (\<lambda>name. walk_dirs m (k @ [name])) names)"

section \<open>Unfolding the effects\<close>

lemmas str_defs = str_strip_def str_lower_def lower_char_def capitals_def small_letters_def
  isspace_def nl_def quote_def
  backslash_def

lemmas path_defs = os_path_join_def os_path_basename_def parts_def path_name_def locate_def
  kind_at_def os_path_exists_def os_path_relpath_def

lemmas io_defs = io_return_def io_raise_def io_bind_def io_try_def emit_def print_py_def
  input_py_def subprocess_run_def exists_io_def shutil_which_def makedirs_io_def
  with_temporary_directory_def load_dotenv_def rglob_io_def walk_io_def

lemmas demo_defs = host_demo_def machine_demo_def world_demo_def spawn_empty_repo_def
  host_empty_repo_def

lemma walk_dirs_unfold: "walk_dirs m k = k # walk_below m k (children m Dir k)"
  by (subst walk_dirs.simps) (simp add: walk_below_def)

lemma walk_below_Nil: "walk_below m k [] = []"
  by (simp add: walk_below_def)

lemma walk_below_Cons: "walk_below m k (n # ns) = walk_dirs m (k @ [n]) @ walk_below m k ns"
  by (simp add: walk_below_def)

lemmas tree_defs = rglob_files_def os_walk_def children_def walk_dirs_unfold walk_below_Nil
  walk_below_Cons add_dir_def shutil_rmtree_def

section \<open>Loops that only print\<close>

lemma io_for_prints:
  assumes "\<And>x w. body x w = (Inr (), w\<lparr>trace := trace w @ map Print (g x)\<rparr>)"
  shows "io_for xs body w = (Inr (), w\<lparr>trace := trace w @ map Print (concat (map g xs))\<rparr>)"
proof (induction xs arbitrary: w)
  case Nil
  show ?case by (simp add: io_return_def)
next
  case (Cons x xs)
  show ?case by (simp add: io_bind_def assms [of x w] Cons.IH)
qed

lemma io_for_print_each:
  "io_for xs (\<lambda>x. print_py (f x)) w = (Inr (), w\<lparr>trace := trace w @ map Print (map f xs)\<rparr>)"
  using io_for_prints [where body = "\<lambda>x. print_py (f x)" and g = "\<lambda>x. [f x]" and xs = xs and w = w]
  by (simp add: print_py_def emit_def)

lemma show_file_preview_eq:
  "show_file_preview h folder_path w =
     (Inr (), w\<lparr>trace := trace w @
        Print (nl @ ''Vista previa de archivos en el proyecto:'') #
        map Print (preview_lines h (mach w) folder_path) @
        [Print (nl @ ''Final de la vista previa de archivos.'')]\<rparr>)"
proof -
  let ?body = "\<lambda>(root, dirs, files).
        if root = folder_path \<or> os_path_basename root = ''src'' \<or> os_path_basename root = ''lib'' then
          io_for files (\<lambda>file.
            print_py (''-  '' @ os_path_relpath h (os_path_join root file) folder_path))
        else io_return ()"
  let ?g = "\<lambda>(root, dirs, files).
        if root = folder_path \<or> os_path_basename root = ''src'' \<or> os_path_basename root = ''lib'' then
          map (\<lambda>file. ''-  '' @ os_path_relpath h (os_path_join root file) folder_path) files
        else []"
  have body: "\<And>x v. ?body x v = (Inr (), v\<lparr>trace := trace v @ map Print (?g x)\<rparr>)"
    by (auto simp: io_for_print_each io_return_def split: prod.splits)
  have loop: "\<And>xs v. io_for xs ?body v =
      (Inr (), v\<lparr>trace := trace v @ map Print (concat (map ?g xs))\<rparr>)"
    by (rule io_for_prints) (rule body)
  show ?thesis
    unfolding show_file_preview_def preview_lines_def
    by (simp add: io_bind_def print_py_def emit_def walk_io_def loop)
qed

section \<open>URL Validator\<close>

text \<open>
  C5. When the child \<^verbatim>\<open>git ls-remote\<close> exits with a non-zero status,
  \<open>verificar_url_repositorio\<close> prints its report and returns False, and \<open>main\<close> ends
  after two more lines: it starts no child process but the remote listing, so no clone,
  neither the shallow one of the probe nor the real one.
\<close>

theorem invalid_url_halts_before_clone:
  assumes "stdin w = line # rest"
      and "spawn h (Argv [''git'', ''ls-remote'', str_strip line]) (mach w) = (Exited status err, m')"
      and "status \<noteq> 0"
  shows "verificar_url_repositorio h (str_strip line) w =
           (Inr False,
            w\<lparr>mach := m',
              trace := trace w @
                [Run (Argv [''git'', ''ls-remote'', str_strip line]),
                 Print ''URL no valido o no se pudo conectar al repositorio.'']\<rparr>) \<and>
         main h w =
           (Inr (),
            w\<lparr>mach := m', stdin := rest,
              trace := trace w @
                [Print ''Bienvenido al asistente de configuracion de su entorno de desarrollo.'',
                 Prompt ''Ingrese el URL del repositorio de Git: '',
                 Run (Argv [''git'', ''ls-remote'', str_strip line]),
                 Print ''URL no valido o no se pudo conectar al repositorio.'',
                 Print ''Proceso terminado. Verifique el URL e intente de nuevo.'']\<rparr>) \<and>
         filter is_clone (trace (snd (main h w))) = filter is_clone (trace w)"
  using assms
  by (simp add: verificar_url_repositorio_def main_def io_defs Let_def)

text \<open>
  C5, witness: a host on which every child exits with status 128.
\<close>

theorem invalid_url_halts_before_clone_witness:
  "main (host_demo\<lparr>spawn := \<lambda>c m. (Exited 128 ''fatal: repository not found'', m)\<rparr>)
     (world_demo ['' https://example.org/missing.git '', ''n'']) =
     (Inr (),
      (world_demo [''n''])\<lparr>trace :=
         [Print ''Bienvenido al asistente de configuracion de su entorno de desarrollo.'',
          Prompt ''Ingrese el URL del repositorio de Git: '',
          Run (Argv [''git'', ''ls-remote'', ''https://example.org/missing.git'']),
          Print ''URL no valido o no se pudo conectar al repositorio.'',
          Print ''Proceso terminado. Verifique el URL e intente de nuevo.'']\<rparr>) \<and>
   filter is_clone
     (trace (snd (main (host_demo\<lparr>spawn := \<lambda>c m. (Exited 128 ''fatal: repository not found'', m)\<rparr>)
                    (world_demo ['' https://example.org/missing.git '', ''n''])))) = []"
  using invalid_url_halts_before_clone
          [of "world_demo ['' https://example.org/missing.git '', ''n'']"
              "'' https://example.org/missing.git ''" "[''n'']"
              "host_demo\<lparr>spawn := \<lambda>c m. (Exited 128 ''fatal: repository not found'', m)\<rparr>"
              128 "''fatal: repository not found''" machine_demo]
  by (simp add: demo_defs str_defs)

section \<open>Repository Prober\<close>

lemma kind_at_rmtree: "kind_at (shutil_rmtree k m) k = None"
  by (auto simp: kind_at_def shutil_rmtree_def map_of_eq_None_iff)

text \<open>
  C7. After \<open>obtener_nombre_y_archivos_repositorio\<close>, whether it returned the name and
  the files or raised (the clone exited with a non-zero status, the clone could not be
  launched, the enumeration raised), the temporary directory it made is not on the file
  system.
\<close>

theorem probe_leaves_no_scratch_directory:
  "kind_at (mach (snd (obtener_nombre_y_archivos_repositorio h url w)))
     (locate h (tmp_name h (mach w))) = None \<and>
   \<not> os_path_exists h (mach (snd (obtener_nombre_y_archivos_repositorio h url w)))
       (tmp_name h (mach w))"
  by (simp add: obtener_nombre_y_archivos_repositorio_def with_temporary_directory_def Let_def
        os_path_exists_def kind_at_rmtree split: prod.splits)

text \<open>
  The three ways out of the probe, on the concrete host: the clone succeeds and leaves a
  file, the clone exits with status 128, the enumeration raises. Each time the child ran
  in a machine that had the temporary directory, and the machine afterwards is the one
  before.
\<close>

lemma probe_returns_and_cleans:
  "obtener_nombre_y_archivos_repositorio
     (host_demo\<lparr>spawn := \<lambda>c m.
        (Exited 0 [], m\<lparr>entries := entries m @ [([''tmp'', ''tmpk3x9'', ''README.md''], File)]\<rparr>)\<rparr>)
     ''https://example.org/r.git'' (world_demo []) =
     (Inr (''tmpk3x9'', [''README.md'']),
      (world_demo [])\<lparr>trace :=
         [Run (Argv [''git'', ''clone'', ''--depth'', ''1'', ''https://example.org/r.git'',
                     ''/tmp/tmpk3x9''])]\<rparr>)"
  by (simp add: obtener_nombre_y_archivos_repositorio_def io_defs demo_defs path_defs
        tree_defs Let_def)

lemma probe_raises_and_cleans:
  "obtener_nombre_y_archivos_repositorio
     (host_demo\<lparr>spawn := \<lambda>c m.
        (Exited 128 [], m\<lparr>entries := entries m @ [([''tmp'', ''tmpk3x9'', ''.git''], Dir)]\<rparr>)\<rparr>)
     ''https://example.org/r.git'' (world_demo []) =
     (Inl (CalledProcessError
             (Argv [''git'', ''clone'', ''--depth'', ''1'', ''https://example.org/r.git'',
                    ''/tmp/tmpk3x9'']) 128 []),
      (world_demo [])\<lparr>trace :=
         [Run (Argv [''git'', ''clone'', ''--depth'', ''1'', ''https://example.org/r.git'',
                     ''/tmp/tmpk3x9''])]\<rparr>)"
  by (simp add: obtener_nombre_y_archivos_repositorio_def io_defs demo_defs path_defs
        tree_defs Let_def)

lemma probe_scan_raises_and_cleans:
  "obtener_nombre_y_archivos_repositorio
     (host_demo\<lparr>scan_refused := \<lambda>m p. Some (OSError ''Input/output error'')\<rparr>)
     ''https://example.org/r.git'' (world_demo []) =
     (Inl (OSError ''Input/output error''),
      (world_demo [])\<lparr>trace :=
         [Run (Argv [''git'', ''clone'', ''--depth'', ''1'', ''https://example.org/r.git'',
                     ''/tmp/tmpk3x9''])]\<rparr>)"
  by (simp add: obtener_nombre_y_archivos_repositorio_def io_defs demo_defs path_defs
        tree_defs Let_def)

section \<open>Destination Selector\<close>

text \<open>
  C1, as the code has it. The answer to the change-directory prompt is stripped of
  surrounding whitespace and lowercased before it is compared with \<^verbatim>\<open>s\<close>. Every answer
  that is not \<^verbatim>\<open>s\<close> after that returns the default directory unchanged, touching
  nothing but the prompt; an answer that is \<^verbatim>\<open>s\<close> after that is a yes, and the path
  prompt is the next thing the function does.
\<close>

theorem seleccionar_default_unless_s:
  "stdin w = a # rest \<Longrightarrow>
   (str_lower (str_strip a) \<noteq> ''s'' \<longrightarrow>
      seleccionar_carpeta_clonacion h default_dir w =
        (Inr (Some default_dir),
         w\<lparr>stdin := rest,
           trace := trace w @
             [Print (nl @ ''Carpeta de clonacion predeterminada: '' @ default_dir),
              Prompt ''Desea cambiar la carpeta de clonacion? (s/n): '']\<rparr>)) \<and>
   (str_lower (str_strip a) = ''s'' \<longrightarrow>
      (\<exists>evs. trace (snd (seleccionar_carpeta_clonacion h default_dir w)) =
         trace w @
           [Print (nl @ ''Carpeta de clonacion predeterminada: '' @ default_dir),
            Prompt ''Desea cambiar la carpeta de clonacion? (s/n): '',
            Prompt ''Ingrese la ruta de la carpeta deseada: ''] @ evs))"
  by (auto simp add: seleccionar_carpeta_clonacion_def io_defs Let_def
        split: list.splits sum.splits option.splits prod.splits)

text \<open>
  C1, witness: the answer \<^verbatim>\<open>yes\<close> is a no, and the answer \<^verbatim>\<open> s \<close> with its blanks
  is a yes.
\<close>

theorem seleccionar_default_unless_s_witness:
  "seleccionar_carpeta_clonacion host_demo ''/home/u'' (world_demo [''yes'']) =
     (Inr (Some ''/home/u''),
      (world_demo [])\<lparr>trace :=
         [Print (nl @ ''Carpeta de clonacion predeterminada: /home/u''),
          Prompt ''Desea cambiar la carpeta de clonacion? (s/n): '']\<rparr>) \<and>
   (\<exists>evs. trace (snd (seleccionar_carpeta_clonacion host_demo ''/home/u''
                        (world_demo ['' s '', ''/home/u'']))) =
      [Print (nl @ ''Carpeta de clonacion predeterminada: /home/u''),
       Prompt ''Desea cambiar la carpeta de clonacion? (s/n): '',
       Prompt ''Ingrese la ruta de la carpeta deseada: ''] @ evs)"
  using seleccionar_default_unless_s
          [of "world_demo [''yes'']" "''yes''" "[]" host_demo "''/home/u''"]
        seleccionar_default_unless_s
          [of "world_demo ['' s '', ''/home/u'']" "'' s ''" "[''/home/u'']" host_demo "''/home/u''"]
  by (simp add: demo_defs str_defs)

text \<open>
  C1, counterexample to the claim as written: the capital \<^verbatim>\<open>S\<close> is taken as a yes, the
  path typed next is created and returned, and the default directory is not.
\<close>

theorem seleccionar_capital_S_is_yes:
  "fst (seleccionar_carpeta_clonacion host_demo ''/home/u'' (world_demo [''S'', ''/srv/a/b'']))
     = Inr (Some ''/srv/a/b'') \<and>
   fst (seleccionar_carpeta_clonacion host_demo ''/home/u'' (world_demo [''S'', ''/srv/a/b'']))
     \<noteq> Inr (Some ''/home/u'')"
  by (simp add: seleccionar_carpeta_clonacion_def io_defs str_defs path_defs demo_defs
        os_makedirs_def add_dir_def Let_def)

text \<open>
  The no-break space is whitespace for \<^verbatim>\<open>strip()\<close>: the capital \<^verbatim>\<open>S\<close> followed by
  one is a yes as well.
\<close>

lemma seleccionar_no_break_space_is_stripped:
  "fst (seleccionar_carpeta_clonacion host_demo ''/home/u''
          (world_demo [[CHR ''S'', CHR 0xA0], ''/srv/a/b''])) = Inr (Some ''/srv/a/b'')"
  by (simp add: seleccionar_carpeta_clonacion_def io_defs str_defs path_defs demo_defs
        os_makedirs_def add_dir_def Let_def)

section \<open>Cloner\<close>

subsection \<open>What os.makedirs leaves behind\<close>

lemma kind_at_add_dir:
  "kind_at (add_dir k m) q =
     (case kind_at m q of Some t \<Rightarrow> Some t | None \<Rightarrow> if q = k then Some Dir else None)"
  by (simp add: kind_at_def add_dir_def map_add_def split: option.splits)

lemma make_chain_keeps:
  "make_chain h pre cs m = (r, m') \<Longrightarrow> kind_at m q = Some t \<Longrightarrow> kind_at m' q = Some t"
proof (induction cs arbitrary: pre m)
  case Nil
  then show ?case by simp
next
  case (Cons c cs)
  then show ?case
    by (auto simp: kind_at_add_dir split: option.splits kind.splits)
qed

lemma below_next:
  assumes "prefix q (pre @ c # cs)" and "strict_prefix pre q" and "q \<noteq> pre @ [c]"
  shows "strict_prefix (pre @ [c]) q"
proof -
  from assms(2) obtain ys where ys: "q = pre @ ys" "ys \<noteq> []"
    by (auto simp: strict_prefix_def prefix_def)
  then obtain z zs where q: "q = pre @ z # zs"
    by (cases ys) auto
  with assms(1) have "z = c" by simp
  with q assms(3) have "zs \<noteq> []" by auto
  with q \<open>z = c\<close> show ?thesis
    by (auto simp: strict_prefix_def prefix_def)
qed

lemma make_chain_dirs:
  "make_chain h pre cs m = (None, m') \<Longrightarrow> prefix q (pre @ cs) \<Longrightarrow> strict_prefix pre q \<Longrightarrow>
   kind_at m' q = Some Dir"
proof (induction cs arbitrary: pre m)
  case Nil
  then show ?case by (auto simp: strict_prefix_def)
next
  case (Cons c cs)
  show ?case
  proof (cases "q = pre @ [c]")
    case True
    show ?thesis
    proof (cases "kind_at m (pre @ [c])")
      case None
      with Cons.prems(1) have mc: "make_chain h (pre @ [c]) cs (add_dir (pre @ [c]) m) = (None, m')"
        by (simp split: option.splits)
      have "kind_at (add_dir (pre @ [c]) m) (pre @ [c]) = Some Dir"
        using None by (simp add: kind_at_add_dir)
      with mc True show ?thesis by (simp add: make_chain_keeps)
    next
      case (Some t)
      with Cons.prems(1) have t: "t = Dir" and mc: "make_chain h (pre @ [c]) cs m = (None, m')"
        by (simp_all split: kind.splits)
      with Some True show ?thesis by (simp add: make_chain_keeps)
    qed
  next
    case False
    from Cons.prems(2,3) False have sp: "strict_prefix (pre @ [c]) q"
      by (rule below_next)
    from Cons.prems(2) have pq: "prefix q ((pre @ [c]) @ cs)" by simp
    from Cons.prems(1) sp pq show ?thesis
      by (auto split: option.splits kind.splits dest: Cons.IH)
  qed
qed

lemma os_makedirs_dirs:
  assumes "os_makedirs h name exist_ok m = (None, m')" and "\<not> os_path_exists h m name"
      and "q \<noteq> []" and "prefix q (locate h name)"
  shows "kind_at m' q = Some Dir"
proof -
  from assms(1,2) have "make_chain h [] (locate h name) m = (None, m')"
    by (auto simp: os_makedirs_def os_path_exists_def split: if_splits option.splits kind.splits)
  moreover from assms(3,4) have "prefix q ([] @ locate h name)" "strict_prefix [] q"
    by (auto simp: strict_prefix_def)
  ultimately show ?thesis
    by (rule make_chain_dirs)
qed

text \<open>
  C3, as the code has it. \<open>clone_repository\<close> calls \<^verbatim>\<open>os.makedirs\<close>, the recursive
  creation, and so does the Destination Selector. For a destination that does not
  exist: when the creation raises, the error leaves \<open>clone_repository\<close> with the machine
  as the creation left it; otherwise \<^verbatim>\<open>git clone\<close> runs on a machine in which the
  destination and every directory above it, up to the root, is a directory. For the
  Selector, on a yes and a typed path that does not exist: when the creation succeeds,
  the typed path is returned and it and every directory above it is a directory.
\<close>

theorem cloner_creates_missing_parents:
  "(\<not> os_path_exists h (mach w) destination_folder \<longrightarrow>
      (case os_makedirs h destination_folder False (mach w) of
         (Some e, m') \<Rightarrow>
           clone_repository h repo_url destination_folder w = (Inl e, w\<lparr>mach := m'\<rparr>)
       | (None, m') \<Rightarrow>
           (\<forall>q. q \<noteq> [] \<and> prefix q (locate h destination_folder) \<longrightarrow>
                kind_at m' q = Some Dir) \<and>
           mach (snd (clone_repository h repo_url destination_folder w)) =
             snd (spawn h (Argv [''git'', ''clone'', repo_url, destination_folder]) m'))) \<and>
   (stdin w = answer # line # rest \<and> str_lower (str_strip answer) = ''s'' \<and>
    \<not> os_path_exists h (mach w) (str_strip line) \<and>
    os_makedirs h (str_strip line) True (mach w) = (None, m2) \<longrightarrow>
      (\<forall>q. q \<noteq> [] \<and> prefix q (locate h (str_strip line)) \<longrightarrow> kind_at m2 q = Some Dir) \<and>
      seleccionar_carpeta_clonacion h default_dir w =
        (Inr (Some (str_strip line)),
         w\<lparr>mach := m2, stdin := rest,
           trace := trace w @
             [Print (nl @ ''Carpeta de clonacion predeterminada: '' @ default_dir),
              Prompt ''Desea cambiar la carpeta de clonacion? (s/n): '',
              Prompt ''Ingrese la ruta de la carpeta deseada: '',
              Print (''Carpeta de clonacion configurada en: '' @ str_strip line)]\<rparr>))"
proof (intro conjI impI)
  assume absent: "\<not> os_path_exists h (mach w) destination_folder"
  obtain r m' where mk: "os_makedirs h destination_folder False (mach w) = (r, m')"
    by (cases "os_makedirs h destination_folder False (mach w)")
  show "case os_makedirs h destination_folder False (mach w) of
         (Some e, m') \<Rightarrow>
           clone_repository h repo_url destination_folder w = (Inl e, w\<lparr>mach := m'\<rparr>)
       | (None, m') \<Rightarrow>
           (\<forall>q. q \<noteq> [] \<and> prefix q (locate h destination_folder) \<longrightarrow>
                kind_at m' q = Some Dir) \<and>
           mach (snd (clone_repository h repo_url destination_folder w)) =
             snd (spawn h (Argv [''git'', ''clone'', repo_url, destination_folder]) m')"
  proof (cases r)
    case (Some e)
    with mk absent show ?thesis
      by (simp add: clone_repository_def io_defs)
  next
    case None
    with mk absent have dirs:
      "\<forall>q. q \<noteq> [] \<and> prefix q (locate h destination_folder) \<longrightarrow> kind_at m' q = Some Dir"
      by (auto intro: os_makedirs_dirs)
    have "mach (snd (clone_repository h repo_url destination_folder w)) =
            snd (spawn h (Argv [''git'', ''clone'', repo_url, destination_folder]) m')"
      using mk None absent
      by (simp add: clone_repository_def show_file_preview_eq io_defs
            split: prod.splits outcome.splits sum.splits error.splits)
    with mk None dirs show ?thesis by simp
  qed
next
  assume sel: "stdin w = answer # line # rest \<and> str_lower (str_strip answer) = ''s'' \<and>
    \<not> os_path_exists h (mach w) (str_strip line) \<and>
    os_makedirs h (str_strip line) True (mach w) = (None, m2)"
  then show "\<forall>q. q \<noteq> [] \<and> prefix q (locate h (str_strip line)) \<longrightarrow> kind_at m2 q = Some Dir"
    by (auto intro: os_makedirs_dirs)
  from sel show "seleccionar_carpeta_clonacion h default_dir w =
        (Inr (Some (str_strip line)),
         w\<lparr>mach := m2, stdin := rest,
           trace := trace w @
             [Print (nl @ ''Carpeta de clonacion predeterminada: '' @ default_dir),
              Prompt ''Desea cambiar la carpeta de clonacion? (s/n): '',
              Prompt ''Ingrese la ruta de la carpeta deseada: '',
              Print (''Carpeta de clonacion configurada en: '' @ str_strip line)]\<rparr>)"
    by (simp add: seleccionar_carpeta_clonacion_def io_defs Let_def)
qed


text \<open>
  C3, witness: \<^verbatim>\<open>/srv/a/b\<close> on a machine that has no \<^verbatim>\<open>/srv\<close>. The clone runs
  with \<^verbatim>\<open>/srv\<close>, \<^verbatim>\<open>/srv/a\<close> and \<^verbatim>\<open>/srv/a/b\<close> made; on a host that refuses the
  leaf, the error leaves \<open>clone_repository\<close> and the two parents stay; the Selector,
  given the same path, makes the same three directories.
\<close>

theorem cloner_creates_missing_parents_witness:
  "\<not> os_path_exists host_demo machine_demo ''/srv/a/b'' \<and>
   mach (snd (clone_repository host_demo ''https://example.org/r.git'' ''/srv/a/b''
                (world_demo []))) =
     machine_demo\<lparr>entries := entries machine_demo @
        [([''srv''], Dir), ([''srv'', ''a''], Dir), ([''srv'', ''a'', ''b''], Dir)]\<rparr> \<and>
   clone_repository
     (host_demo\<lparr>mkdir_refused := \<lambda>m k.
        if k = [''srv'', ''a'', ''b''] then Some (OSError ''File name too long'') else None\<rparr>)
     ''https://example.org/r.git'' ''/srv/a/b'' (world_demo []) =
     (Inl (OSError ''File name too long''),
      (world_demo [])\<lparr>mach := machine_demo\<lparr>entries := entries machine_demo @
        [([''srv''], Dir), ([''srv'', ''a''], Dir)]\<rparr>\<rparr>) \<and>
   seleccionar_carpeta_clonacion host_demo ''/home/u'' (world_demo [''s'', ''/srv/a/b'']) =
     (Inr (Some ''/srv/a/b''),
      (world_demo [])\<lparr>mach := machine_demo\<lparr>entries := entries machine_demo @
          [([''srv''], Dir), ([''srv'', ''a''], Dir), ([''srv'', ''a'', ''b''], Dir)]\<rparr>,
        trace :=
          [Print (nl @ ''Carpeta de clonacion predeterminada: /home/u''),
           Prompt ''Desea cambiar la carpeta de clonacion? (s/n): '',
           Prompt ''Ingrese la ruta de la carpeta deseada: '',
           Print ''Carpeta de clonacion configurada en: /srv/a/b'']\<rparr>)"
  using cloner_creates_missing_parents
          [where h = host_demo and w = "world_demo []" and destination_folder = "''/srv/a/b''"
             and repo_url = "''https://example.org/r.git''" and answer = "[]" and line = "[]"
             and rest = "[]" and ?m2.0 = machine_demo and default_dir = "[]"]
        cloner_creates_missing_parents
          [where h = "host_demo\<lparr>mkdir_refused := \<lambda>m k.
                 if k = [''srv'', ''a'', ''b''] then Some (OSError ''File name too long'') else None\<rparr>"
             and w = "world_demo []" and destination_folder = "''/srv/a/b''"
             and repo_url = "''https://example.org/r.git''" and answer = "[]" and line = "[]"
             and rest = "[]" and ?m2.0 = machine_demo and default_dir = "[]"]
        cloner_creates_missing_parents
          [where h = host_demo and w = "world_demo [''s'', ''/srv/a/b'']"
             and destination_folder = "''/home/u''"
             and repo_url = "[]" and answer = "''s''" and line = "''/srv/a/b''"
             and rest = "[]"
             and ?m2.0 = "machine_demo\<lparr>entries := entries machine_demo @
                [([''srv''], Dir), ([''srv'', ''a''], Dir), ([''srv'', ''a'', ''b''], Dir)]\<rparr>"
             and default_dir = "''/home/u''"]
  by (simp add: demo_defs path_defs str_defs os_makedirs_def add_dir_def)

text \<open>
  C3, counterexample to the claim as written: before the call \<^verbatim>\<open>/srv/a\<close> does not
  exist; after it both \<^verbatim>\<open>/srv/a\<close> and \<^verbatim>\<open>/srv/a/b\<close> are directories and the clone
  succeeded. The single-level \<^verbatim>\<open>os.mkdir\<close> raises on the same machine.
\<close>

theorem cloner_single_level_would_fail:
  "kind_at (mach (world_demo [])) [''srv'', ''a''] = None \<and>
   kind_at (mach (snd (clone_repository host_demo ''https://example.org/r.git'' ''/srv/a/b''
                         (world_demo [])))) [''srv'', ''a''] = Some Dir \<and>
   kind_at (mach (snd (clone_repository host_demo ''https://example.org/r.git'' ''/srv/a/b''
                         (world_demo [])))) [''srv'', ''a'', ''b''] = Some Dir \<and>
   fst (clone_repository host_demo ''https://example.org/r.git'' ''/srv/a/b'' (world_demo []))
     = Inr True \<and>
   os_mkdir host_demo ''/srv/a/b'' (mach (world_demo [])) = Inl FileNotFoundError"
  by (simp add: clone_repository_def show_file_preview_eq io_defs str_defs path_defs demo_defs
        os_makedirs_def os_mkdir_def add_dir_def Let_def)

section \<open>Dependency Detector\<close>

text \<open>
  C4. In a directory that holds both \<^verbatim>\<open>requirements.txt\<close> and \<^verbatim>\<open>Pipfile\<close>,
  \<open>detect_dependencies\<close> returns a dictionary whose key \<^verbatim>\<open>Python\<close> has the value
  \<^verbatim>\<open>requirements.txt\<close>, and no entry maps \<^verbatim>\<open>Python\<close> to \<^verbatim>\<open>Pipfile\<close>.
\<close>

theorem detect_prefers_requirements_txt:
  assumes "os_path_exists h (mach w) (os_path_join project_folder ''requirements.txt'')"
      and "os_path_exists h (mach w) (os_path_join project_folder ''Pipfile'')"
  shows "\<exists>deps. fst (detect_dependencies h project_folder w) = Inr deps \<and>
           dict_get deps ''Python'' = Some ''requirements.txt'' \<and>
           dict_get deps ''Python'' \<noteq> Some ''Pipfile'' \<and>
           (''Python'', ''Pipfile'') \<notin> set deps"
  using assms
  by (simp add: detect_dependencies_def io_defs dict_get_def Let_def split: prod.splits)

text \<open>
  C4, witness: a project directory with both manifests.
\<close>

theorem detect_prefers_requirements_txt_witness:
  "os_path_exists host_demo
     (machine_demo\<lparr>entries := entries machine_demo @
        [([''home'', ''u'', ''requirements.txt''], File), ([''home'', ''u'', ''Pipfile''], File)]\<rparr>)
     (os_path_join ''/home/u'' ''requirements.txt'') \<and>
   os_path_exists host_demo
     (machine_demo\<lparr>entries := entries machine_demo @
        [([''home'', ''u'', ''requirements.txt''], File), ([''home'', ''u'', ''Pipfile''], File)]\<rparr>)
     (os_path_join ''/home/u'' ''Pipfile'') \<and>
   (\<exists>deps. fst (detect_dependencies host_demo ''/home/u''
                 ((world_demo [])\<lparr>mach := machine_demo\<lparr>entries := entries machine_demo @
                    [([''home'', ''u'', ''requirements.txt''], File),
                     ([''home'', ''u'', ''Pipfile''], File)]\<rparr>\<rparr>)) = Inr deps \<and>
           dict_get deps ''Python'' = Some ''requirements.txt'' \<and>
           dict_get deps ''Python'' \<noteq> Some ''Pipfile'' \<and>
           (''Python'', ''Pipfile'') \<notin> set deps)"
  using detect_prefers_requirements_txt
          [of host_demo
              "(world_demo [])\<lparr>mach := machine_demo\<lparr>entries := entries machine_demo @
                    [([''home'', ''u'', ''requirements.txt''], File),
                     ([''home'', ''u'', ''Pipfile''], File)]\<rparr>\<rparr>"
              "''/home/u''"]
  by (simp add: demo_defs path_defs)

text \<open>
  C9. Whatever the directory holds, \<open>detect_dependencies\<close> returns a dictionary, each key
  once, and every entry is one of: \<^verbatim>\<open>Node.js\<close> with \<^verbatim>\<open>package.json\<close>,
  \<^verbatim>\<open>Python\<close> with \<^verbatim>\<open>requirements.txt\<close> or with \<^verbatim>\<open>Pipfile\<close>,
  \<^verbatim>\<open>Python virtual environment\<close> with \<^verbatim>\<open>venv\<close>.
\<close>

theorem detect_entries_known:
  "\<exists>deps. fst (detect_dependencies h project_folder w) = Inr deps \<and>
     distinct (map fst deps) \<and>
     (\<forall>kv \<in> set deps.
        kv = (''Node.js'', ''package.json'') \<or>
        kv = (''Python'', ''requirements.txt'') \<or>
        kv = (''Python'', ''Pipfile'') \<or>
        kv = (''Python virtual environment'', ''venv''))"
  by (simp add: detect_dependencies_def io_defs Let_def split: prod.splits)

text \<open>
  C9, witness: a directory with \<^verbatim>\<open>package.json\<close>, \<^verbatim>\<open>Pipfile\<close> and \<^verbatim>\<open>venv\<close> gives
  three entries, each of a listed form.
\<close>

theorem detect_entries_known_witness:
  "fst (detect_dependencies host_demo ''/home/u''
          ((world_demo [])\<lparr>mach := machine_demo\<lparr>entries := entries machine_demo @
             [([''home'', ''u'', ''package.json''], File), ([''home'', ''u'', ''Pipfile''], File),
              ([''home'', ''u'', ''venv''], Dir)]\<rparr>\<rparr>)) =
     Inr [(''Node.js'', ''package.json''), (''Python'', ''Pipfile''),
          (''Python virtual environment'', ''venv'')]"
  using detect_entries_known
          [of host_demo "''/home/u''"
              "(world_demo [])\<lparr>mach := machine_demo\<lparr>entries := entries machine_demo @
                 [([''home'', ''u'', ''package.json''], File), ([''home'', ''u'', ''Pipfile''], File),
                  ([''home'', ''u'', ''venv''], Dir)]\<rparr>\<rparr>"]
  by (simp add: detect_dependencies_def io_defs demo_defs path_defs str_defs Let_def)

section \<open>Dependency Installer\<close>

text \<open>
  C6. Phase B, in every run that reaches it: \<^verbatim>\<open>git\<close> is found and Phase A has
  returned, whatever it asked and installed, leaving the world \<open>wA\<close>. Whichever of the
  two ecosystems are detected, in the order Node.js, Python, each detected one shows its
  prompt and reads a line. On the answer \<^verbatim>\<open>s\<close> (any case) the install command runs
  through the shell and, whatever its exit status, the success line is printed and the
  loop goes on; on any other answer no command runs and the manual instruction is
  printed. The function returns without raising, so the prompt of the second ecosystem
  is reached after a failed install of the first. The only condition on the host is
  that the shell is launched.
\<close>

theorem phase_b_ignores_exit_status:
  assumes "''git'' \<in> programs (mach w)"
      and "toolchain_checks h dependencies w = (Inr (), wA)"
      and "stdin wA = (if dict_has dependencies ''Node.js'' then [a1] else []) @
                      (if dict_has dependencies ''Python'' then [a2] else []) @ rest"
      and "dict_has dependencies ''Node.js'' \<and> str_lower a1 = ''s'' \<longrightarrow>
             spawn h (Shell ''npm install'') (mach wA) = (Exited c1 e1, m1)"
      and "dict_has dependencies ''Python'' \<and> str_lower a2 = ''s'' \<longrightarrow>
             spawn h (Shell ''pip install -r requirements.txt'')
               (if dict_has dependencies ''Node.js'' \<and> str_lower a1 = ''s'' then m1 else mach wA)
             = (Exited c2 e2, m2)"
  shows "install_required_dependencies h dependencies w =
           (Inr (),
            wA\<lparr>mach := (if dict_has dependencies ''Python'' \<and> str_lower a2 = ''s'' then m2
                        else if dict_has dependencies ''Node.js'' \<and> str_lower a1 = ''s'' then m1
                        else mach wA),
               stdin := rest,
               trace := trace wA @
                (if dict_has dependencies ''Node.js'' then
                   [Print (nl @ ''Para completar la instalacion de Node.js:''),
                    Prompt (''Quieres ejecutar '' @ quote @ ''npm install'' @ quote
                              @ '' automaticamente? (s/n): '')] @
                   (if str_lower a1 = ''s''
                    then [Run (Shell ''npm install''), Print ''Node.js se configuro correctamente.'']
                    else [Print (''Instruccion: Ejecuta '' @ quote @ ''npm install'' @ quote
                                   @ '' en el directorio del proyecto.'')])
                 else []) @
                (if dict_has dependencies ''Python'' then
                   [Print (nl @ ''Para completar la instalacion de Python:''),
                    Prompt (''Quieres ejecutar '' @ quote @ ''pip install -r requirements.txt''
                              @ quote @ '' automaticamente? (s/n): '')] @
                   (if str_lower a2 = ''s''
                    then [Run (Shell ''pip install -r requirements.txt''),
                          Print ''Python se configuro correctamente.'']
                    else [Print (''Instruccion: Ejecuta '' @ quote
                                   @ ''pip install -r requirements.txt'' @ quote
                                   @ '' en el entorno virtual.'')])
                 else [])\<rparr>)"
  using assms
  by (cases "dict_has dependencies ''Node.js''"; cases "dict_has dependencies ''Python''";
      cases "str_lower a1 = ''s''"; cases "str_lower a2 = ''s''")
     (simp_all add: install_required_dependencies_def project_requirements_def
        io_return_def io_bind_def emit_def print_py_def input_py_def subprocess_run_def
        shutil_which_def Let_def)


text \<open>
  C6, witness: every child exits with status 1. First a run with Python alone detected:
  the user accepts, \<^verbatim>\<open>pip install\<close> fails, the success line is printed and the
  function returns. Then a run with both detected and no Node.js on the machine: Phase A
  asks about Node.js and is declined; in Phase B the user accepts \<^verbatim>\<open>npm install\<close>,
  which fails, and the Python prompt is reached and declined.
\<close>

theorem phase_b_ignores_exit_status_witness:
  "install_required_dependencies (host_demo\<lparr>spawn := \<lambda>c m. (Exited 1 ''ERR'', m)\<rparr>)
     [(''Python'', ''requirements.txt'')]
     ((world_demo [''S''])\<lparr>mach := machine_demo\<lparr>programs := {''git'', ''python3'', ''pip''}\<rparr>\<rparr>) =
     (Inr (),
      (world_demo [])
        \<lparr>mach := machine_demo\<lparr>programs := {''git'', ''python3'', ''pip''}\<rparr>,
         trace :=
           [Print (nl @ ''Para completar la instalacion de Python:''),
            Prompt (''Quieres ejecutar '' @ quote @ ''pip install -r requirements.txt'' @ quote
                      @ '' automaticamente? (s/n): ''),
            Run (Shell ''pip install -r requirements.txt''),
            Print ''Python se configuro correctamente.'']\<rparr>) \<and>
   install_required_dependencies (host_demo\<lparr>spawn := \<lambda>c m. (Exited 1 ''ERR'', m)\<rparr>)
     [(''Node.js'', ''package.json''), (''Python'', ''requirements.txt'')]
     ((world_demo [''n'', ''s'', ''n''])
        \<lparr>mach := machine_demo\<lparr>programs := {''git'', ''python3'', ''pip''}\<rparr>\<rparr>) =
     (Inr (),
      (world_demo [])
        \<lparr>mach := machine_demo\<lparr>programs := {''git'', ''python3'', ''pip''}\<rparr>,
         trace :=
           [Print (nl @ ''Se necesita instalar Node.js y npm.''),
            Prompt ''Quieres instalar Node.js y npm automaticamente? (s/n): '',
            Print ''Instrucciones para instalar Node.js y npm manualmente:'',
            Print ''Visita https://nodejs.org para descargar e instalar Node.js y npm.'',
            Print (nl @ ''Para completar la instalacion de Node.js:''),
            Prompt (''Quieres ejecutar '' @ quote @ ''npm install'' @ quote
                      @ '' automaticamente? (s/n): ''),
            Run (Shell ''npm install''),
            Print ''Node.js se configuro correctamente.'',
            Print (nl @ ''Para completar la instalacion de Python:''),
            Prompt (''Quieres ejecutar '' @ quote @ ''pip install -r requirements.txt'' @ quote
                      @ '' automaticamente? (s/n): ''),
            Print (''Instruccion: Ejecuta '' @ quote @ ''pip install -r requirements.txt''
                     @ quote @ '' en el entorno virtual.'')]\<rparr>)"
  using phase_b_ignores_exit_status
          [where h = "host_demo\<lparr>spawn := \<lambda>c m. (Exited 1 ''ERR'', m)\<rparr>"
             and dependencies = "[(''Python'', ''requirements.txt'')]"
             and w = "(world_demo [''S''])
                        \<lparr>mach := machine_demo\<lparr>programs := {''git'', ''python3'', ''pip''}\<rparr>\<rparr>"
             and wA = "(world_demo [''S''])
                        \<lparr>mach := machine_demo\<lparr>programs := {''git'', ''python3'', ''pip''}\<rparr>\<rparr>"
             and ?a1.0 = "[]" and ?a2.0 = "''S''" and rest = "[]"
             and ?c1.0 = 1 and ?e1.0 = "''ERR''" and ?c2.0 = 1 and ?e2.0 = "''ERR''"
             and ?m1.0 = "machine_demo\<lparr>programs := {''git'', ''python3'', ''pip''}\<rparr>"
             and ?m2.0 = "machine_demo\<lparr>programs := {''git'', ''python3'', ''pip''}\<rparr>"]
        phase_b_ignores_exit_status
          [where h = "host_demo\<lparr>spawn := \<lambda>c m. (Exited 1 ''ERR'', m)\<rparr>"
             and dependencies = "[(''Node.js'', ''package.json''), (''Python'', ''requirements.txt'')]"
             and w = "(world_demo [''n'', ''s'', ''n''])
                        \<lparr>mach := machine_demo\<lparr>programs := {''git'', ''python3'', ''pip''}\<rparr>\<rparr>"
             and wA = "(world_demo [''s'', ''n''])
                        \<lparr>mach := machine_demo\<lparr>programs := {''git'', ''python3'', ''pip''}\<rparr>,
                         trace :=
                           [Print (nl @ ''Se necesita instalar Node.js y npm.''),
                            Prompt ''Quieres instalar Node.js y npm automaticamente? (s/n): '',
                            Print ''Instrucciones para instalar Node.js y npm manualmente:'',
                            Print ''Visita https://nodejs.org para descargar e instalar Node.js y npm.'']\<rparr>"
             and ?a1.0 = "''s''" and ?a2.0 = "''n''" and rest = "[]"
             and ?c1.0 = 1 and ?e1.0 = "''ERR''" and ?c2.0 = 1 and ?e2.0 = "''ERR''"
             and ?m1.0 = "machine_demo\<lparr>programs := {''git'', ''python3'', ''pip''}\<rparr>"
             and ?m2.0 = "machine_demo\<lparr>programs := {''git'', ''python3'', ''pip''}\<rparr>"]
  by (simp add: toolchain_checks_def install_dependency_def io_defs demo_defs str_defs
        dict_has_def Let_def)

text \<open>
  C10. The three yes/no prompts, for every answer \<open>a\<close>. The Destination Selector takes
  the yes branch, and asks for the path, exactly when \<open>a\<close> stripped and lowercased is
  \<^verbatim>\<open>s\<close>. \<open>install_dependency\<close> takes the yes branch, and starts the install command,
  exactly when \<open>a\<close> lowercased is \<^verbatim>\<open>s\<close>; otherwise it prints the manual instructions. The
  Phase B prompt, for Node.js and for Python, starts the shell command exactly when \<open>a\<close>
  lowercased is \<^verbatim>\<open>s\<close>; otherwise it prints the instruction. The answer \<^verbatim>\<open>s\<close> followed by
  a blank is \<^verbatim>\<open>s\<close> once stripped and lowercased and is not \<^verbatim>\<open>s\<close> once lowercased: a
  yes for the Selector, a no for the installer prompts.
\<close>

theorem selector_strips_installer_does_not:
  "(stdin w = a # rest \<longrightarrow>
      (str_lower (str_strip a) = ''s'' \<longrightarrow>
         (\<exists>evs. trace (snd (seleccionar_carpeta_clonacion h default_dir w)) =
            trace w @
              [Print (nl @ ''Carpeta de clonacion predeterminada: '' @ default_dir),
               Prompt ''Desea cambiar la carpeta de clonacion? (s/n): '',
               Prompt ''Ingrese la ruta de la carpeta deseada: ''] @ evs)) \<and>
      (str_lower (str_strip a) \<noteq> ''s'' \<longrightarrow>
         seleccionar_carpeta_clonacion h default_dir w =
           (Inr (Some default_dir),
            w\<lparr>stdin := rest,
              trace := trace w @
                [Print (nl @ ''Carpeta de clonacion predeterminada: '' @ default_dir),
                 Prompt ''Desea cambiar la carpeta de clonacion? (s/n): '']\<rparr>)) \<and>
      (str_lower a = ''s'' \<longrightarrow>
         (\<exists>evs. trace (snd (install_dependency h dependency_name install_command
                               manual_instructions w)) =
            trace w @
              [Print (nl @ ''Se necesita instalar '' @ dependency_name @ ''.''),
               Prompt (''Quieres instalar '' @ dependency_name @ '' automaticamente? (s/n): ''),
               Print (''Instalando '' @ dependency_name @ ''...''),
               Run (Argv install_command)] @ evs)) \<and>
      (str_lower a \<noteq> ''s'' \<longrightarrow>
         install_dependency h dependency_name install_command manual_instructions w =
           (Inr (),
            w\<lparr>stdin := rest,
              trace := trace w @
                [Print (nl @ ''Se necesita instalar '' @ dependency_name @ ''.''),
                 Prompt (''Quieres instalar '' @ dependency_name @ '' automaticamente? (s/n): ''),
                 Print (''Instrucciones para instalar '' @ dependency_name @ '' manualmente:''),
                 Print manual_instructions]\<rparr>))) \<and>
   (''git'' \<in> programs (mach w) \<and> toolchain_checks h dependencies w = (Inr (), wA) \<and>
    stdin wA = a # rest \<and> dict_has dependencies ''Node.js'' \<longrightarrow>
      (str_lower a = ''s'' \<longrightarrow>
         (\<exists>evs. trace (snd (install_required_dependencies h dependencies w)) =
            trace wA @
              [Print (nl @ ''Para completar la instalacion de Node.js:''),
               Prompt (''Quieres ejecutar '' @ quote @ ''npm install'' @ quote
                         @ '' automaticamente? (s/n): ''),
               Run (Shell ''npm install'')] @ evs)) \<and>
      (str_lower a \<noteq> ''s'' \<longrightarrow>
         (\<exists>evs. trace (snd (install_required_dependencies h dependencies w)) =
            trace wA @
              [Print (nl @ ''Para completar la instalacion de Node.js:''),
               Prompt (''Quieres ejecutar '' @ quote @ ''npm install'' @ quote
                         @ '' automaticamente? (s/n): ''),
               Print (''Instruccion: Ejecuta '' @ quote @ ''npm install'' @ quote
                        @ '' en el directorio del proyecto.'')] @ evs))) \<and>
   (''git'' \<in> programs (mach w) \<and> toolchain_checks h dependencies w = (Inr (), wA) \<and>
    stdin wA = a # rest \<and> \<not> dict_has dependencies ''Node.js'' \<and>
    dict_has dependencies ''Python'' \<longrightarrow>
      (str_lower a = ''s'' \<longrightarrow>
         (\<exists>evs. trace (snd (install_required_dependencies h dependencies w)) =
            trace wA @
              [Print (nl @ ''Para completar la instalacion de Python:''),
               Prompt (''Quieres ejecutar '' @ quote @ ''pip install -r requirements.txt''
                         @ quote @ '' automaticamente? (s/n): ''),
               Run (Shell ''pip install -r requirements.txt'')] @ evs)) \<and>
      (str_lower a \<noteq> ''s'' \<longrightarrow>
         install_required_dependencies h dependencies w =
           (Inr (),
            wA\<lparr>stdin := rest,
               trace := trace wA @
                 [Print (nl @ ''Para completar la instalacion de Python:''),
                  Prompt (''Quieres ejecutar '' @ quote @ ''pip install -r requirements.txt''
                            @ quote @ '' automaticamente? (s/n): ''),
                  Print (''Instruccion: Ejecuta '' @ quote @ ''pip install -r requirements.txt''
                           @ quote @ '' en el entorno virtual.'')]\<rparr>))) \<and>
   str_lower (str_strip ''s '') = ''s'' \<and> str_lower ''s '' \<noteq> ''s''"
proof (intro conjI impI)
  show "str_lower (str_strip ''s '') = ''s''" and "str_lower ''s '' \<noteq> ''s''"
    by (simp_all add: str_defs)
qed (auto simp add: seleccionar_carpeta_clonacion_def install_dependency_def
       install_required_dependencies_def project_requirements_def
       io_return_def io_raise_def io_bind_def io_try_def emit_def print_py_def input_py_def
       subprocess_run_def shutil_which_def makedirs_io_def Let_def
       split: list.splits sum.splits option.splits prod.splits outcome.splits error.splits)


text \<open>
  C10, witness: the answer \<^verbatim>\<open>s\<close> followed by a blank, given to each of the three
  prompts.
\<close>

theorem selector_strips_installer_does_not_witness:
  "(\<exists>evs. trace (snd (seleccionar_carpeta_clonacion host_demo ''/home/u''
                        (world_demo [''s '', ''/home/u'']))) =
      [Print (nl @ ''Carpeta de clonacion predeterminada: /home/u''),
       Prompt ''Desea cambiar la carpeta de clonacion? (s/n): '',
       Prompt ''Ingrese la ruta de la carpeta deseada: ''] @ evs) \<and>
   install_dependency host_demo ''pip'' [''python3'', ''-m'', ''ensurepip'', ''--upgrade'']
     ''Instala pip.'' (world_demo [''s '', ''/home/u'']) =
     (Inr (),
      (world_demo [''/home/u''])\<lparr>trace :=
         [Print (nl @ ''Se necesita instalar pip.''),
          Prompt ''Quieres instalar pip automaticamente? (s/n): '',
          Print ''Instrucciones para instalar pip manualmente:'',
          Print ''Instala pip.'']\<rparr>) \<and>
   (\<exists>evs. trace (snd (install_required_dependencies host_demo [(''Node.js'', ''package.json'')]
                        ((world_demo [''s ''])
                           \<lparr>mach := machine_demo\<lparr>programs := {''git'', ''node'', ''npm''}\<rparr>\<rparr>))) =
      [Print ''Node.js y npm ya estan instalados.'',
       Print (nl @ ''Para completar la instalacion de Node.js:''),
       Prompt (''Quieres ejecutar '' @ quote @ ''npm install'' @ quote
                 @ '' automaticamente? (s/n): ''),
       Print (''Instruccion: Ejecuta '' @ quote @ ''npm install'' @ quote
                @ '' en el directorio del proyecto.'')] @ evs)"
  using selector_strips_installer_does_not
          [where h = host_demo and w = "world_demo [''s '', ''/home/u'']" and a = "''s ''"
             and rest = "[''/home/u'']" and default_dir = "''/home/u''"
             and dependency_name = "''pip''"
             and install_command = "[''python3'', ''-m'', ''ensurepip'', ''--upgrade'']"
             and manual_instructions = "''Instala pip.''"
             and dependencies = "[]" and wA = "world_demo []"]
        selector_strips_installer_does_not
          [where h = host_demo
             and w = "(world_demo [''s ''])
                        \<lparr>mach := machine_demo\<lparr>programs := {''git'', ''node'', ''npm''}\<rparr>\<rparr>"
             and a = "''s ''" and rest = "[]" and default_dir = "[]"
             and dependency_name = "[]" and install_command = "[]" and manual_instructions = "[]"
             and dependencies = "[(''Node.js'', ''package.json'')]"
             and wA = "(world_demo [''s ''])
                        \<lparr>mach := machine_demo\<lparr>programs := {''git'', ''node'', ''npm''}\<rparr>,
                         trace := [Print ''Node.js y npm ya estan instalados.'']\<rparr>"]
  by (simp add: toolchain_checks_def io_defs demo_defs str_defs dict_has_def Let_def)

section \<open>Environment Preparer\<close>

text \<open>
  C8. From any state in which \<^verbatim>\<open>venv\<close> exists, \<open>setup_python_virtualenv\<close> starts no
  child process and changes nothing but the output: it prints that the environment
  exists and the activation command. Run twice in a row, it prints the same two lines
  twice, with the same activation command.
\<close>

theorem setup_python_virtualenv_idempotent:
  assumes "os_path_exists h (mach w) ''venv''"
  shows "setup_python_virtualenv h w =
           (Inr (),
            w\<lparr>trace := trace w @
                [Print ''El entorno virtual ya existe.'',
                 Print (''Para activar el entorno virtual, ejecute: '' @
                   (if os_name h = ''nt''
                    then ''venv'' @ backslash @ ''Scripts'' @ backslash @ ''activate.bat''
                    else ''source venv/bin/activate''))]\<rparr>) \<and>
         io_bind (setup_python_virtualenv h) (\<lambda>u. setup_python_virtualenv h) w =
           (Inr (),
            w\<lparr>trace := trace w @
                [Print ''El entorno virtual ya existe.'',
                 Print (''Para activar el entorno virtual, ejecute: '' @
                   (if os_name h = ''nt''
                    then ''venv'' @ backslash @ ''Scripts'' @ backslash @ ''activate.bat''
                    else ''source venv/bin/activate'')),
                 Print ''El entorno virtual ya existe.'',
                 Print (''Para activar el entorno virtual, ejecute: '' @
                   (if os_name h = ''nt''
                    then ''venv'' @ backslash @ ''Scripts'' @ backslash @ ''activate.bat''
                    else ''source venv/bin/activate''))]\<rparr>)"
  using assms
  by (simp add: setup_python_virtualenv_def io_defs Let_def)

text \<open>
  C8, witness: the working directory holds \<^verbatim>\<open>venv\<close>, on a POSIX host.
\<close>

theorem setup_python_virtualenv_idempotent_witness:
  "os_path_exists host_demo
     (machine_demo\<lparr>entries := entries machine_demo @ [([''home'', ''u'', ''venv''], Dir)]\<rparr>) ''venv'' \<and>
   io_bind (setup_python_virtualenv host_demo) (\<lambda>u. setup_python_virtualenv host_demo)
     ((world_demo [])\<lparr>mach := machine_demo\<lparr>entries := entries machine_demo @
                                  [([''home'', ''u'', ''venv''], Dir)]\<rparr>\<rparr>) =
     (Inr (),
      (world_demo [])\<lparr>mach := machine_demo\<lparr>entries := entries machine_demo @
                                  [([''home'', ''u'', ''venv''], Dir)]\<rparr>,
         trace :=
           [Print ''El entorno virtual ya existe.'',
            Print ''Para activar el entorno virtual, ejecute: source venv/bin/activate'',
            Print ''El entorno virtual ya existe.'',
            Print ''Para activar el entorno virtual, ejecute: source venv/bin/activate'']\<rparr>)"
  using setup_python_virtualenv_idempotent
          [of host_demo
              "(world_demo [])\<lparr>mach := machine_demo\<lparr>entries := entries machine_demo @
                                  [([''home'', ''u'', ''venv''], Dir)]\<rparr>\<rparr>"]
  by (simp add: demo_defs path_defs)

section \<open>The whole run\<close>

lemma join_cwd_absolute:
  assumes "cwd h \<noteq> []" and "hd (cwd h) = CHR ''/''"
  shows "os_path_join (cwd h) (os_path_join (cwd h) x) = os_path_join (cwd h) x"
  using assms by (cases "cwd h") (auto simp: os_path_join_def)

lemma exists_join_cwd:
  assumes "cwd h \<noteq> []" and "hd (cwd h) = CHR ''/''" and "x \<noteq> []"
  shows "os_path_exists h m (os_path_join (cwd h) x) = os_path_exists h m x"
proof -
  have "os_path_join (cwd h) x \<noteq> []"
    using assms by (auto simp: os_path_join_def)
  with assms show ?thesis
    by (simp add: os_path_exists_def locate_def join_cwd_absolute)
qed

lemma detect_dependencies_none:
  assumes "\<not> os_path_exists h (mach w) (os_path_join d ''package.json'')"
      and "\<not> os_path_exists h (mach w) (os_path_join d ''requirements.txt'')"
      and "\<not> os_path_exists h (mach w) (os_path_join d ''Pipfile'')"
      and "\<not> os_path_exists h (mach w) (os_path_join d ''venv'')"
  shows "detect_dependencies h d w =
           (Inr [], w\<lparr>trace := trace w @
              [Print (nl @ ''--- Detectando dependencias ---''),
               Print ''No se detectaron dependencias especificas en el proyecto.'']\<rparr>)"
  using assms by (simp add: detect_dependencies_def io_defs)

lemma install_required_dependencies_none:
  "install_required_dependencies h [] w =
     (Inr (), w\<lparr>trace := trace w @
        (if ''git'' \<in> programs (mach w) then []
         else [Print ''Error: Git no esta instalado. Por favor, instala Git y vuelve a intentarlo.''])\<rparr>)"
  by (simp add: install_required_dependencies_def toolchain_checks_def project_requirements_def
        dict_has_def io_defs)

text \<open>
  C2, as the code has it. \<open>main\<close> goes on after the probe only when the probe gave a
  name and at least one file; an empty file list ends the run there. So scenario A is:
  three lines are there to be read (the URL, the answer, the confirmation), the remote
  listing, the shallow clone and the real clone exit with status 0, the probe lists at
  least one file (the files of \<^verbatim>\<open>.git\<close> are enough), the user declines a custom
  destination, the working directory is absolute and exists and holds none of \<^verbatim>\<open>package.json\<close>,
  \<^verbatim>\<open>requirements.txt\<close>, \<^verbatim>\<open>Pipfile\<close>, \<^verbatim>\<open>venv\<close> after the clone, the creation of
  the virtual environment exits with status 0, and no \<^verbatim>\<open>.env\<close> and no manifest is
  there after it. Then \<open>main\<close> returns normally after the whole pipeline: dependency
  detection reports nothing, the only prompts are the URL, the change of directory and
  the confirmation, the virtual environment is created, and the settings step prints
  its one line about the missing file.
\<close>

theorem scenario_a_completes:
  assumes inp: "stdin w = line # answer # enter # rest"
      and no: "str_lower (str_strip answer) \<noteq> ''s''"
      and cwd: "cwd h \<noteq> []" "hd (cwd h) = CHR ''/''"
      and ls: "spawn h (Argv [''git'', ''ls-remote'', str_strip line]) (mach w) = (Exited 0 e0, m1)"
      and probe: "spawn h (Argv [''git'', ''clone'', ''--depth'', ''1'', str_strip line, tmp_name h m1])
                    (add_dir (locate h (tmp_name h m1)) m1) = (Exited 0 e1, m2)"
      and scan: "scan_refused h m2 (tmp_name h m1) = None"
      and name: "path_name (tmp_name h m1) \<noteq> []"
      and files: "rglob_files h m2 (tmp_name h m1) \<noteq> []"
      and dest: "os_path_exists h (shutil_rmtree (locate h (tmp_name h m1)) m2) (cwd h)"
      and clone: "spawn h (Argv [''git'', ''clone'', str_strip line, cwd h])
                    (shutil_rmtree (locate h (tmp_name h m1)) m2) = (Exited 0 e2, m3)"
      and none3: "\<not> os_path_exists h m3 ''package.json''"
                 "\<not> os_path_exists h m3 ''requirements.txt''"
                 "\<not> os_path_exists h m3 ''Pipfile''"
                 "\<not> os_path_exists h m3 ''venv''"
      and venv: "spawn h (Argv [sys_executable h, ''-m'', ''venv'', ''venv'']) m3 = (Exited 0 e3, m4)"
      and none4: "\<not> os_path_exists h m4 ''.env''"
                 "\<not> os_path_exists h m4 ''requirements.txt''"
                 "\<not> os_path_exists h m4 ''package.json''"
  shows "main h w =
           (Inr (),
            w\<lparr>mach := m4, stdin := rest,
              trace := trace w @
                [Print ''Bienvenido al asistente de configuracion de su entorno de desarrollo.'',
                 Prompt ''Ingrese el URL del repositorio de Git: '',
                 Run (Argv [''git'', ''ls-remote'', str_strip line]),
                 Print (nl @ ''URL verificado correctamente.''),
                 Run (Argv [''git'', ''clone'', ''--depth'', ''1'', str_strip line, tmp_name h m1]),
                 Print (nl @ ''Nombre del repositorio: '' @ path_name (tmp_name h m1)),
                 Print ''Archivos del repositorio (vista previa de 10 archivos):''] @
                map (\<lambda>archivo. Print (''  - '' @ archivo))
                  (take 10 (rglob_files h m2 (tmp_name h m1))) @
                [Print (nl @ ''Carpeta de clonacion predeterminada: '' @ cwd h),
                 Prompt ''Desea cambiar la carpeta de clonacion? (s/n): '',
                 Print (nl @ ''El repositorio se clonara en: '' @ cwd h),
                 Prompt (nl @
                   ''Configuracion inicial completada. Presione Enter para continuar con la clonacion...''),
                 Run (Argv [''git'', ''clone'', str_strip line, cwd h]),
                 Print (''Repositorio clonado con exito en: '' @ cwd h),
                 Print (nl @ ''Vista previa de archivos en el proyecto:'')] @
                map Print (preview_lines h m3 (cwd h)) @
                [Print (nl @ ''Final de la vista previa de archivos.''),
                 Print ''Repositorio clonado exitosamente.'',
                 Print (nl @ ''--- Detectando dependencias ---''),
                 Print ''No se detectaron dependencias especificas en el proyecto.''] @
                (if ''git'' \<in> programs m3 then []
                 else [Print ''Error: Git no esta instalado. Por favor, instala Git y vuelve a intentarlo.'']) @
                [Print ''Creando entorno virtual en Python...'',
                 Run (Argv [sys_executable h, ''-m'', ''venv'', ''venv'']),
                 Print ''Entorno virtual creado.'',
                 Print (''Para activar el entorno virtual, ejecute: '' @
                   (if os_name h = ''nt''
                    then ''venv'' @ backslash @ ''Scripts'' @ backslash @ ''activate.bat''
                    else ''source venv/bin/activate'')),
                 Print ''No se encontro un archivo .env. Puedes crear uno para definir variables de entorno.'',
                 Print ''No se detecto requirements.txt. Saltando instalacion de dependencias de Python.'',
                 Print ''No se detecto package.json. Saltando instalacion de dependencias de Node.js.'']\<rparr>)"
proof -
  have join3: "\<not> os_path_exists h m3 (os_path_join (cwd h) ''package.json'')"
      "\<not> os_path_exists h m3 (os_path_join (cwd h) ''requirements.txt'')"
      "\<not> os_path_exists h m3 (os_path_join (cwd h) ''Pipfile'')"
      "\<not> os_path_exists h m3 (os_path_join (cwd h) ''venv'')"
    using none3 cwd by (simp_all add: exists_join_cwd)
  show ?thesis
    using inp no cwd(1) ls probe scan name files dest clone none3 venv none4 join3
    by (simp add: main_def verificar_url_repositorio_def obtener_nombre_y_archivos_repositorio_def
          seleccionar_carpeta_clonacion_def clone_repository_def show_file_preview_eq
          detect_dependencies_none install_required_dependencies_none
          setup_python_virtualenv_def setup_environment_variables_def
          install_python_dependencies_def install_node_dependencies_def truthy_def
          io_for_print_each
          io_return_def io_raise_def io_bind_def io_try_def emit_def print_py_def
          input_py_def subprocess_run_def exists_io_def with_temporary_directory_def rglob_io_def
          Let_def)
qed


text \<open>
  C2, witness: the run on the host whose \<^verbatim>\<open>git\<close> clones an empty repository.
\<close>

theorem scenario_a_completes_witness:
  "main host_empty_repo (world_demo [''https://example.org/empty.git'', ''n'', []]) =
     (Inr (),
      \<lparr>mach = machine_demo\<lparr>entries := entries machine_demo @
                [([''home'', ''u'', ''.git''], Dir), ([''home'', ''u'', ''.git'', ''HEAD''], File),
                 ([''home'', ''u'', ''venv''], Dir)]\<rparr>,
       stdin = [],
       trace =
         [Print ''Bienvenido al asistente de configuracion de su entorno de desarrollo.'',
          Prompt ''Ingrese el URL del repositorio de Git: '',
          Run (Argv [''git'', ''ls-remote'', ''https://example.org/empty.git'']),
          Print (nl @ ''URL verificado correctamente.''),
          Run (Argv [''git'', ''clone'', ''--depth'', ''1'', ''https://example.org/empty.git'',
                     ''/tmp/tmpk3x9'']),
          Print (nl @ ''Nombre del repositorio: tmpk3x9''),
          Print ''Archivos del repositorio (vista previa de 10 archivos):'',
          Print ''  - .git/HEAD'',
          Print (nl @ ''Carpeta de clonacion predeterminada: /home/u''),
          Prompt ''Desea cambiar la carpeta de clonacion? (s/n): '',
          Print (nl @ ''El repositorio se clonara en: /home/u''),
          Prompt (nl @
            ''Configuracion inicial completada. Presione Enter para continuar con la clonacion...''),
          Run (Argv [''git'', ''clone'', ''https://example.org/empty.git'', ''/home/u'']),
          Print ''Repositorio clonado con exito en: /home/u'',
          Print (nl @ ''Vista previa de archivos en el proyecto:''),
          Print (nl @ ''Final de la vista previa de archivos.''),
          Print ''Repositorio clonado exitosamente.'',
          Print (nl @ ''--- Detectando dependencias ---''),
          Print ''No se detectaron dependencias especificas en el proyecto.'',
          Print ''Creando entorno virtual en Python...'',
          Run (Argv [''/usr/bin/python3'', ''-m'', ''venv'', ''venv'']),
          Print ''Entorno virtual creado.'',
          Print ''Para activar el entorno virtual, ejecute: source venv/bin/activate'',
          Print ''No se encontro un archivo .env. Puedes crear uno para definir variables de entorno.'',
          Print ''No se detecto requirements.txt. Saltando instalacion de dependencias de Python.'',
          Print ''No se detecto package.json. Saltando instalacion de dependencias de Node.js.'']\<rparr>)"
  using scenario_a_completes
          [where h = host_empty_repo
             and w = "world_demo [''https://example.org/empty.git'', ''n'', []]"
             and line = "''https://example.org/empty.git''" and answer = "''n''"
             and enter = "[]" and rest = "[]"
             and ?e0.0 = "[]" and ?e1.0 = "[]" and ?e2.0 = "[]" and ?e3.0 = "[]"
             and ?m1.0 = machine_demo
             and ?m2.0 = "machine_demo\<lparr>entries := entries machine_demo @
                  [([''tmp'', ''tmpk3x9''], Dir), ([''tmp'', ''tmpk3x9'', ''.git''], Dir),
                   ([''tmp'', ''tmpk3x9'', ''.git'', ''HEAD''], File)]\<rparr>"
             and ?m3.0 = "machine_demo\<lparr>entries := entries machine_demo @
                  [([''home'', ''u'', ''.git''], Dir), ([''home'', ''u'', ''.git'', ''HEAD''], File)]\<rparr>"
             and ?m4.0 = "machine_demo\<lparr>entries := entries machine_demo @
                  [([''home'', ''u'', ''.git''], Dir), ([''home'', ''u'', ''.git'', ''HEAD''], File),
                   ([''home'', ''u'', ''venv''], Dir)]\<rparr>"]
  by (simp add: demo_defs str_defs path_defs tree_defs preview_lines_def)

text \<open>
  C2, counterexample to the claim as written: on the host whose clone leaves no file the
  probe returns an empty list, and \<open>main\<close> prints that it could not get the details
  and returns. The answers of the user are still unread and no dependency detection has
  run.
\<close>

theorem empty_file_list_stops_main:
  "fst (obtener_nombre_y_archivos_repositorio host_demo ''https://example.org/empty.git''
          (world_demo [''n'', []])) = Inr (''tmpk3x9'', []) \<and>
   main host_demo (world_demo [''https://example.org/empty.git'', ''n'', []]) =
     (Inr (),
      \<lparr>mach = machine_demo, stdin = [''n'', []],
       trace =
         [Print ''Bienvenido al asistente de configuracion de su entorno de desarrollo.'',
          Prompt ''Ingrese el URL del repositorio de Git: '',
          Run (Argv [''git'', ''ls-remote'', ''https://example.org/empty.git'']),
          Print (nl @ ''URL verificado correctamente.''),
          Run (Argv [''git'', ''clone'', ''--depth'', ''1'', ''https://example.org/empty.git'',
                     ''/tmp/tmpk3x9'']),
          Print ''No se pudieron obtener los detalles del repositorio. Proceso terminado.'']\<rparr>)"
  by (simp add: main_def verificar_url_repositorio_def obtener_nombre_y_archivos_repositorio_def
        io_defs demo_defs str_defs path_defs tree_defs Let_def)

end
